theory Spec2Isabelle
  imports Main "HOL-Library.Sublist"
begin

section \<open>Python strings\<close>

text \<open>
  A Python \<open>str\<close> is modelled as a \<open>string\<close> whose characters are the code points
  below 256.  The functions below are the string methods the agents and wrappers call,
  with the behaviour CPython gives them on such strings.
\<close>

definition whitespace :: "char list" where
  "whitespace = [CHR 0x09, CHR 0x0A, CHR 0x0B, CHR 0x0C, CHR 0x0D,
                 CHR 0x1C, CHR 0x1D, CHR 0x1E, CHR 0x1F, CHR 0x20, CHR 0x85, CHR 0xA0]"

definition isspace :: "char \<Rightarrow> bool" where
  "isspace c = (c \<in> set whitespace)"

text \<open>\<open>s.strip()\<close>: whitespace removed at both ends.\<close>

definition strip :: "string \<Rightarrow> string" where
  "strip s = rev (dropWhile isspace (rev (dropWhile isspace s)))"

text \<open>\<open>s.split()\<close>: the maximal runs of non-whitespace characters, in order.
  The first argument is the word being read.\<close>

fun split_words :: "string \<Rightarrow> string \<Rightarrow> string list" where
  "split_words cur [] = (if cur = [] then [] else [cur])"
| "split_words cur (c # cs) =
     (if isspace c then (if cur = [] then split_words [] cs else cur # split_words [] cs)
      else split_words (cur @ [c]) cs)"

definition split :: "string \<Rightarrow> string list" where
  "split s = split_words [] s"

text \<open>\<open>sep.join(xs)\<close>.\<close>

fun join :: "string \<Rightarrow> string list \<Rightarrow> string" where
  "join sep [] = []"
| "join sep [x] = x"
| "join sep (x # y # ys) = x @ sep @ join sep (y # ys)"

text \<open>\<open>s.startswith(p)\<close>.\<close>

fun startswith :: "string \<Rightarrow> string \<Rightarrow> bool" where
  "startswith s [] = True"
| "startswith [] (p # ps) = False"
| "startswith (c # cs) (p # ps) = (c = p \<and> startswith cs ps)"

text \<open>\<open>s.split(sep)[0]\<close> for a non-empty \<open>sep\<close>: the text before the first
  occurrence of \<open>sep\<close>, the whole of \<open>s\<close> when there is none.\<close>

fun split_first :: "string \<Rightarrow> string \<Rightarrow> string" where
  "split_first sep [] = []"
| "split_first sep (c # cs) =
     (if startswith (c # cs) sep then [] else c # split_first sep cs)"

text \<open>\<open>s.replace(a, b)\<close> for one-character \<open>a\<close> and \<open>b\<close>.\<close>

definition replace_char :: "char \<Rightarrow> char \<Rightarrow> string \<Rightarrow> string" where
  "replace_char a b s = map (\<lambda>c. if c = a then b else c) s"

section \<open>The SQL agent: the generation step\<close>

text \<open>\<open>process_duplication\<close> of \<open>conversation_sql.py\<close>.\<close>

definition process_duplication :: "string \<Rightarrow> string" where
  "process_duplication sql = split_first ''/*'' (strip sql)"

text \<open>
  The body of \<open>SQLAgent.get_response_from_prompt\<close> after the model has answered:
  \<open>sql\<close> is the text of the model's response.
\<close>

definition sql_from_model_text :: "string \<Rightarrow> string" where
  "sql_from_model_text text0 =
     (let sql = join '' '' (split (replace_char CHR 0x0A CHR '' '' text0));
          sql = process_duplication sql
      in if startswith sql ''SELECT'' then sql @ [CHR 0x0A]
         else if startswith sql '' '' then ''SELECT'' @ sql @ [CHR 0x0A]
         else ''SELECT '' @ sql @ [CHR 0x0A])"

section \<open>Exceptions\<close>

text \<open>
  The Python exceptions the modelled code raises, each with its message;
  \<open>UnboundLocalError\<close> carries the name of the local variable that was read, its message
  being worded differently from one version of Python to the next.  \<open>Raised\<close> is an
  exception of class \<open>Exception\<close> raised by an external collaborator (the model service,
  the SQL engine).
\<close>

datatype exn =
    ValueError string
  | TypeError string
  | RuntimeError string
  | AttributeError string
  | UnboundLocalError string
  | IndexError string
  | AssertionError
  | Raised string

section \<open>Messages and the chat formatter\<close>

text \<open>
  \<open>Msg\<close>: the fields the formatter and the agents read.  The content is of any type
  \<open>'c\<close>; \<open>_convert_to_str\<close> of \<open>agentscope.utils.tools\<close> renders it as text and is a
  parameter \<open>conv\<close> of the formatter.
\<close>

record 'c msg =
  name :: string
  role :: string
  content :: 'c

text \<open>An element of a list argument: a \<open>Msg\<close>, or an object of another class.\<close>

datatype 'c py_item = ItemMsg "'c msg" | ItemOther

text \<open>
  One positional argument of \<open>format\<close>: \<open>None\<close>, a \<open>Msg\<close>, a list, or an object of
  another type, given by the text of its \<open>type(_)\<close>.
\<close>

datatype 'c format_arg =
    ArgNone
  | ArgMsg "'c msg"
  | ArgList "'c py_item list"
  | ArgOther string

fun is_msg :: "'c py_item \<Rightarrow> bool" where
  "is_msg (ItemMsg m) = True"
| "is_msg ItemOther = False"

fun the_msgs :: "'c py_item list \<Rightarrow> 'c msg list" where
  "the_msgs [] = []"
| "the_msgs (ItemMsg m # xs) = m # the_msgs xs"
| "the_msgs (ItemOther # xs) = the_msgs xs"

definition format_type_error :: "string \<Rightarrow> exn" where
  "format_type_error ty =
     TypeError (''The input should be a Msg object or a list of Msg objects, got ''
                @ ty @ ''.'')"

text \<open>The first loop of \<open>format\<close>: the arguments are gathered into \<open>input_msgs\<close>.\<close>

fun parse_args :: "'c format_arg list \<Rightarrow> 'c msg list \<Rightarrow> exn + 'c msg list" where
  "parse_args [] input_msgs = Inr input_msgs"
| "parse_args (ArgNone # args) input_msgs = parse_args args input_msgs"
| "parse_args (ArgMsg m # args) input_msgs = parse_args args (input_msgs @ [m])"
| "parse_args (ArgList xs # args) input_msgs =
     (if list_all is_msg xs then parse_args args (input_msgs @ the_msgs xs)
      else Inl (format_type_error ''<class 'list'>''))"
| "parse_args (ArgOther ty # args) input_msgs = Inl (format_type_error ty)"

text \<open>A formatted entry is a dictionary with string values, kept as the list of its items.\<close>

type_synonym entry = "(string \<times> string) list"

text \<open>
  The second loop, over \<open>enumerate(input_msgs)\<close> from index \<open>i\<close>, with the lists
  \<open>messages\<close> and \<open>dialogue\<close> it appends to.
\<close>

fun format_loop ::
  "('c \<Rightarrow> string) \<Rightarrow> nat \<Rightarrow> 'c msg list \<Rightarrow> entry list \<Rightarrow> string list
     \<Rightarrow> entry list \<times> string list" where
  "format_loop conv i [] messages dialogue = (messages, dialogue)"
| "format_loop conv i (unit # rest) messages dialogue =
     (if i = 0 \<and> role unit = ''system''
      then format_loop conv (Suc i) rest
             (messages @ [[(''role'', role unit), (''content'', conv (content unit))]]) dialogue
      else format_loop conv (Suc i) rest
             messages (dialogue @ [name unit @ '': '' @ conv (content unit)]))"

definition format_msgs :: "('c \<Rightarrow> string) \<Rightarrow> 'c msg list \<Rightarrow> entry list" where
  "format_msgs conv input_msgs =
     (let (messages, dialogue) = format_loop conv 0 input_msgs [] [];
          dialogue_history = join [CHR 0x0A] dialogue
      in messages @
         [[(''role'', ''user''),
           (''content'', ''## Dialogue History'' @ [CHR 0x0A] @ dialogue_history)]])"

text \<open>\<open>DashScopeChatWrapper.format\<close>.\<close>

definition dashscope_chat_format ::
  "('c \<Rightarrow> string) \<Rightarrow> 'c format_arg list \<Rightarrow> exn + entry list" where
  "dashscope_chat_format conv args =
     (case parse_args args [] of
        Inl e \<Rightarrow> Inl e
      | Inr input_msgs \<Rightarrow> Inr (format_msgs conv input_msgs))"

text \<open>\<open>ZhipuAIChatWrapper.format\<close>: the same two loops, on \<open>MessageBase\<close> objects.\<close>

definition zhipuai_chat_format ::
  "('c \<Rightarrow> string) \<Rightarrow> 'c format_arg list \<Rightarrow> exn + entry list" where
  "zhipuai_chat_format conv args =
     (case parse_args args [] of
        Inl e \<Rightarrow> Inl e
      | Inr input_msgs \<Rightarrow> Inr (format_msgs conv input_msgs))"

text \<open>The line of the dialogue history that a message becomes.\<close>

definition dialogue_line :: "('c \<Rightarrow> string) \<Rightarrow> 'c msg \<Rightarrow> string" where
  "dialogue_line conv unit = name unit @ '': '' @ conv (content unit)"

text \<open>The single user entry that closes every formatted prompt.\<close>

definition history_entry :: "('c \<Rightarrow> string) \<Rightarrow> 'c msg list \<Rightarrow> entry" where
  "history_entry conv ms =
     [(''role'', ''user''),
      (''content'', ''## Dialogue History'' @ [CHR 0x0A]
                    @ join [CHR 0x0A] (map (dialogue_line conv) ms))]"

text \<open>The first message of the sequence has role \<open>system\<close>.\<close>

fun leading_system :: "'c msg list \<Rightarrow> bool" where
  "leading_system [] = False"
| "leading_system (m # ms) = (role m = ''system'')"

section \<open>Numbers as text\<close>

text \<open>\<open>str(n)\<close> for an integer: its decimal digits, with a minus sign when negative.\<close>

fun show_nat :: "nat \<Rightarrow> string" where
  "show_nat n =
     (if n < 10 then [''0123456789'' ! n]
      else show_nat (n div 10) @ [''0123456789'' ! (n mod 10)])"

declare show_nat.simps [simp del]

definition show_int :: "int \<Rightarrow> string" where
  "show_int i = (if i < 0 then ''-'' @ show_nat (nat (- i)) else show_nat (nat i))"

section \<open>Dictionaries\<close>

text \<open>
  A Python \<open>dict\<close> with string keys is the list of its items in insertion order.
  \<open>dict_set\<close> is \<open>d[k] = v\<close>: an existing key keeps its place.
\<close>

fun dict_set :: "string \<Rightarrow> 'a \<Rightarrow> (string \<times> 'a) list \<Rightarrow> (string \<times> 'a) list" where
  "dict_set k v [] = [(k, v)]"
| "dict_set k v ((k', v') # d) =
     (if k' = k then (k, v) # d else (k', v') # dict_set k v d)"

text \<open>\<open>d.update(e)\<close>, and with it \<open>{**d, **e}\<close>.\<close>

fun dict_update :: "(string \<times> 'a) list \<Rightarrow> (string \<times> 'a) list \<Rightarrow> (string \<times> 'a) list" where
  "dict_update d [] = d"
| "dict_update d ((k, v) # e) = dict_update (dict_set k v d) e"

text \<open>\<open>k in d\<close>.\<close>

definition has_key :: "string \<Rightarrow> (string \<times> 'a) list \<Rightarrow> bool" where
  "has_key k d = (map_of d k \<noteq> None)"

text \<open>\<open>d.get(k, default)\<close>.\<close>

definition dict_get :: "(string \<times> 'a) list \<Rightarrow> string \<Rightarrow> 'a \<Rightarrow> 'a" where
  "dict_get d k dflt = (case map_of d k of None \<Rightarrow> dflt | Some v \<Rightarrow> v)"

section \<open>The chat model wrappers\<close>

text \<open>
  An element of a \<open>messages\<close> list is any object: a dictionary, with values of any type
  \<open>'v\<close>; a string; a list or a tuple, given by its elements; or an object of a type
  that does not support \<open>in\<close>, such as \<open>int\<close> or \<open>NoneType\<close>, given by the name of
  the type.
\<close>

datatype 'v py_object =
    PyDict "(string \<times> 'v) list"
  | PyStr string
  | PySeq "'v py_object list"
  | PyOther string

text \<open>
  The \<open>messages\<close> argument of a wrapper call: a list, or an object that is not a list,
  given by the text of its \<open>type(messages)\<close>.
\<close>

datatype 'v py_messages =
    NotAList string
  | MsgList "'v py_object list"

text \<open>\<open>sub in s\<close> for two strings: \<open>sub\<close> occurs in \<open>s\<close>.\<close>

fun str_contains :: "string \<Rightarrow> string \<Rightarrow> bool" where
  "str_contains sub [] = (sub = [])"
| "str_contains sub (c # cs) = (startswith (c # cs) sub \<or> str_contains sub cs)"

text \<open>
  \<open>k in obj\<close> for a string \<open>k\<close>: a key of a dictionary, a part of a string, an element
  of a list or tuple; \<open>TypeError\<close> for an object that does not support the test.
\<close>

fun py_contains :: "string \<Rightarrow> 'v py_object \<Rightarrow> exn + bool" where
  "py_contains k (PyDict d) = Inr (has_key k d)"
| "py_contains k (PyStr s) = Inr (str_contains k s)"
| "py_contains k (PySeq xs) = Inr (PyStr k \<in> set xs)"
| "py_contains k (PyOther ty) =
     Inl (TypeError (''argument of type '' @ [CHR 0x27] @ ty @ [CHR 0x27]
                     @ '' is not iterable''))"

text \<open>A value of the keyword arguments sent to the provider.\<close>

datatype 'v kwarg =
    KStr string
  | KStrs "string list"
  | KBool bool
  | KMessages "'v py_object list"
  | KOther 'v

type_synonym 'v kwargs = "(string \<times> 'v kwarg) list"

text \<open>
  What a wrapper does to the world outside it, in the order it does it: the request to
  the provider, \<open>update_monitor\<close> with its keyword arguments, and
  \<open>_save_model_invocation\<close> with the arguments and response it records.  The last two
  are methods of \<open>ModelWrapperBase\<close>; a call of one of them is one event.
\<close>

datatype ('v, 'r) event =
    Request "'v kwargs"
  | UpdateMonitor "(string \<times> int) list"
  | SaveInvocation "'v kwargs" 'r

text \<open>
  \<open>GenerationResponse\<close> of DashScope: the fields the chat wrapper reads.
  \<open>output_content\<close> is \<open>output["choices"][0]["message"]["content"]\<close>.
\<close>

record gen_response =
  request_id :: string
  status_code :: int
  code :: string
  message :: string
  output_content :: string
  usage :: "(string \<times> int) list"

text \<open>\<open>HTTPStatus.OK\<close>.\<close>

definition HTTP_OK :: int where
  "HTTP_OK = 200"

text \<open>
  \<open>dashscope.Generation.call\<close>: one response when \<open>stream\<close> is false, the sequence of
  chunks when it is true.
\<close>

record 'v generation =
  call_blocking :: "'v kwargs \<Rightarrow> gen_response"
  call_stream :: "'v kwargs \<Rightarrow> gen_response list"

text \<open>The attributes of a \<open>DashScopeChatWrapper\<close> that \<open>__call__\<close> reads.\<close>

record 'v dashscope_chat =
  model_name :: string
  generate_args :: "'v kwargs"
  stream_default :: bool

text \<open>\<open>_save_model_invocation_and_update_monitor\<close>.\<close>

definition save_model_invocation_and_update_monitor ::
  "'v kwargs \<Rightarrow> gen_response \<Rightarrow> ('v, gen_response) event list \<Rightarrow> ('v, gen_response) event list"
  where
  "save_model_invocation_and_update_monitor kwargs response trace =
     (let input_tokens = dict_get (usage response) ''input_tokens'' 0;
          output_tokens = dict_get (usage response) ''output_tokens'' 0
      in trace @
         [UpdateMonitor [(''call_counter'', 1), (''prompt_tokens'', input_tokens),
                         (''completion_tokens'', output_tokens),
                         (''total_tokens'', input_tokens + output_tokens)],
          SaveInvocation kwargs response])"

text \<open>
  The generator of the streaming branch.  Between two \<open>next\<close> calls it is suspended
  before its first statement (\<open>Start\<close>), at the \<open>yield\<close> for a chunk
  (\<open>AtYield\<close>), or it has ended (\<open>Done\<close>).  \<open>pending\<close> is what the provider's
  iterator has still to deliver; \<open>last_chunk\<close> and \<open>gen_text\<close> (the local \<open>text\<close>) are the generator's locals
  and \<open>gen_kwargs\<close> the keyword arguments it closes over.
\<close>

datatype gen_pc = Start | AtYield gen_response | Done

record 'v stream_gen =
  pc :: gen_pc
  pending :: "gen_response list"
  last_chunk :: "gen_response option"
  gen_text :: string
  gen_kwargs :: "'v kwargs"

text \<open>What one \<open>next\<close> on a generator gives.\<close>

datatype gen_result = Yield string | StopIteration | Raise exn

definition stream_error_msg :: "gen_response \<Rightarrow> string" where
  "stream_error_msg chunk =
     ''Request id: '' @ request_id chunk @ [CHR 0x0A]
     @ ''Status code: '' @ show_int (status_code chunk) @ [CHR 0x0A]
     @ ''Error code: '' @ code chunk @ [CHR 0x0A]
     @ ''Error message: '' @ message chunk"

text \<open>The message of the error Python raises for \<open>None.output\<close>.\<close>

definition none_has_no_output :: string where
  "none_has_no_output =
     [CHR 0x27] @ ''NoneType'' @ [CHR 0x27] @ '' object has no attribute ''
     @ [CHR 0x27] @ ''output'' @ [CHR 0x27]"

text \<open>The \<open>for\<close> loop of the generator from its head, and the statements after it.\<close>

definition gen_loop ::
  "'v stream_gen \<Rightarrow> ('v, gen_response) event list
     \<Rightarrow> gen_result \<times> 'v stream_gen \<times> ('v, gen_response) event list" where
  "gen_loop g trace =
     (case pending g of
        chunk # rest \<Rightarrow>
          if status_code chunk \<noteq> HTTP_OK
          then (Raise (RuntimeError (stream_error_msg chunk)),
                g\<lparr>pc := Done, pending := rest\<rparr>, trace)
          else (let text' = gen_text g @ output_content chunk
                in (Yield text', g\<lparr>pc := AtYield chunk, pending := rest, gen_text := text'\<rparr>,
                    trace))
      | [] \<Rightarrow>
          (case last_chunk g of
             None \<Rightarrow>
               (Raise (AttributeError none_has_no_output),
                g\<lparr>pc := Done\<rparr>, trace)
           | Some lc \<Rightarrow>
               (let lc' = lc\<lparr>output_content := gen_text g\<rparr>
                in (StopIteration, g\<lparr>pc := Done, last_chunk := Some lc'\<rparr>,
                    save_model_invocation_and_update_monitor (gen_kwargs g) lc' trace))))"

text \<open>One \<open>next\<close> on the generator.\<close>

definition gen_next ::
  "'v stream_gen \<Rightarrow> ('v, gen_response) event list
     \<Rightarrow> gen_result \<times> 'v stream_gen \<times> ('v, gen_response) event list" where
  "gen_next g trace =
     (case pc g of
        Start \<Rightarrow> gen_loop (g\<lparr>last_chunk := None, gen_text := ''''\<rparr>) trace
      | AtYield chunk \<Rightarrow> gen_loop (g\<lparr>last_chunk := Some chunk\<rparr>) trace
      | Done \<Rightarrow> (StopIteration, g, trace))"

text \<open>
  \<open>ModelResponse\<close> of a chat call: the text with the raw response, or the generator
  in the \<open>stream\<close> field with the provider's sequence as raw response.
\<close>

datatype 'v chat_response =
    TextResponse string gen_response
  | StreamResponse "'v stream_gen" "gen_response list"

definition call_error_msg :: "gen_response \<Rightarrow> string" where
  "call_error_msg response =
     ''Request id: '' @ request_id response @ '','' @ [CHR 0x0A]
     @ ''Status code: '' @ show_int (status_code response) @ '','' @ [CHR 0x0A]
     @ ''Error code: '' @ code response @ '','' @ [CHR 0x0A]
     @ ''Error message: '' @ message response @ ''.''"

text \<open>
  The test of step 2, \<open>all("role" in msg and "content" in msg for msg in messages)\<close>:
  the elements are tested in order, \<open>content\<close> only where \<open>role\<close> was found, up to the
  first that fails the test or raises.
\<close>

fun all_have_role_and_content :: "'v py_object list \<Rightarrow> exn + bool" where
  "all_have_role_and_content [] = Inr True"
| "all_have_role_and_content (msg # msgs) =
     (case py_contains ''role'' msg of
        Inl e \<Rightarrow> Inl e
      | Inr has_role \<Rightarrow>
          if \<not> has_role then Inr False
          else (case py_contains ''content'' msg of
                  Inl e \<Rightarrow> Inl e
                | Inr has_content \<Rightarrow>
                    if \<not> has_content then Inr False
                    else all_have_role_and_content msgs))"

text \<open>
  The keyword arguments of the request, as step 3 of \<open>__call__\<close> completes them:
  \<open>kwargs\<close> holds the merged arguments of step 1 and \<open>stream\<close> the flag in force.
\<close>

definition request_kwargs ::
  "'v dashscope_chat \<Rightarrow> 'v py_object list \<Rightarrow> bool \<Rightarrow> 'v kwargs \<Rightarrow> 'v kwargs" where
  "request_kwargs self msgs stream kwargs =
     (let kwargs = dict_update kwargs
                     [(''model'', KStr (model_name self)),
                      (''messages'', KMessages msgs),
                      (''result_format'', KStr ''message''),
                      (''stream'', KBool stream)]
      in if stream then dict_set ''incremental_output'' (KBool True) kwargs else kwargs)"

text \<open>
  \<open>DashScopeChatWrapper.__call__\<close>.  \<open>stream\<close> is the optional argument of that
  name; \<open>trace\<close> holds the events so far and is returned with those of this call.
\<close>

definition dashscope_chat_call ::
  "'v dashscope_chat \<Rightarrow> 'v generation \<Rightarrow> 'v py_messages \<Rightarrow> bool option \<Rightarrow> 'v kwargs
     \<Rightarrow> ('v, gen_response) event list
     \<Rightarrow> (exn + 'v chat_response) \<times> ('v, gen_response) event list" where
  "dashscope_chat_call self api messages stream kwargs trace =
     (let kwargs = dict_update (generate_args self) kwargs
      in case messages of
           NotAList ty \<Rightarrow>
             (Inl (ValueError (''Dashscope `messages` field expected type `list`, got `''
                               @ ty @ ''` instead.'')), trace)
         | MsgList msgs \<Rightarrow>
             case all_have_role_and_content msgs of
               Inl e \<Rightarrow> (Inl e, trace)
             | Inr all_have \<Rightarrow>
             if \<not> all_have
             then (Inl (ValueError (''Each message in the 'messages' list must contain ''
                                    @ ''a 'role' and 'content' key for DashScope API.'')),
                   trace)
             else
               (let stream = (case stream of None \<Rightarrow> stream_default self | Some b \<Rightarrow> b);
                    kwargs = request_kwargs self msgs stream kwargs;
                    trace = trace @ [Request kwargs]
                in if stream
                   then (let response = call_stream api kwargs
                         in (Inr (StreamResponse
                                    \<lparr>pc = Start, pending = response, last_chunk = None,
                                     gen_text = [], gen_kwargs = kwargs\<rparr> response),
                             trace))
                   else (let response = call_blocking api kwargs
                         in if status_code response \<noteq> HTTP_OK
                            then (Inl (RuntimeError (call_error_msg response)), trace)
                            else (Inr (TextResponse (output_content response) response),
                                  save_model_invocation_and_update_monitor
                                    kwargs response trace))))"

text \<open>
  A consumer that iterates over the stream to its end, as \<open>for text in stream\<close> does:
  the texts it received, the exception that ended the iteration if there was one, and the
  generator and the events afterwards.
\<close>

function drain ::
  "'v stream_gen \<Rightarrow> ('v, gen_response) event list
     \<Rightarrow> string list \<times> exn option \<times> 'v stream_gen \<times> ('v, gen_response) event list" where
  "drain g trace =
     (case gen_next g trace of
        (Yield t, g', trace') \<Rightarrow>
          (case drain g' trace' of (ts, e, g'', trace'') \<Rightarrow> (t # ts, e, g'', trace''))
      | (StopIteration, g', trace') \<Rightarrow> ([], None, g', trace')
      | (Raise e, g', trace') \<Rightarrow> ([], Some e, g', trace'))"
  by pat_completeness auto

termination drain
  by (relation "measure (\<lambda>(g, trace). length (pending g))")
     (auto simp: gen_next_def gen_loop_def Let_def
           split: gen_pc.splits list.splits if_splits option.splits)

declare drain.simps [simp del]

text \<open>The state in which a generator that has not ended resumes its loop.\<close>

definition resumed :: "'v stream_gen \<Rightarrow> 'v stream_gen" where
  "resumed g =
     (case pc g of
        Start \<Rightarrow> g\<lparr>last_chunk := None, gen_text := []\<rparr>
      | AtYield chunk \<Rightarrow> g\<lparr>last_chunk := Some chunk\<rparr>
      | Done \<Rightarrow> g)"

text \<open>The first \<open>k\<close> \<open>next\<close> calls on a generator, for a consumer that stops there.\<close>

fun take_next ::
  "nat \<Rightarrow> 'v stream_gen \<Rightarrow> ('v, gen_response) event list
     \<Rightarrow> gen_result list \<times> 'v stream_gen \<times> ('v, gen_response) event list" where
  "take_next 0 g trace = ([], g, trace)"
| "take_next (Suc k) g trace =
     (case gen_next g trace of
        (r, g', trace') \<Rightarrow>
          (case take_next k g' trace' of (rs, g'', trace'') \<Rightarrow> (r # rs, g'', trace'')))"

text \<open>The keys of an object: those of a dictionary, none for any other object.\<close>

fun keys :: "'v py_object \<Rightarrow> string set" where
  "keys (PyDict d) = fst ` set d"
| "keys (PyStr s) = {}"
| "keys (PySeq xs) = {}"
| "keys (PyOther ty) = {}"

text \<open>
  The malformed \<open>messages\<close> arguments of the specification: not a list, or a list with
  an element that lacks the key \<open>role\<close> or the key \<open>content\<close>.
\<close>

definition malformed :: "'v py_messages \<Rightarrow> bool" where
  "malformed messages =
     (case messages of
        NotAList ty \<Rightarrow> True
      | MsgList msgs \<Rightarrow>
          (\<exists>msg \<in> set msgs. ''role'' \<notin> keys msg \<or> ''content'' \<notin> keys msg))"

text \<open>The \<open>messages\<close> arguments with no element other than dictionaries.\<close>

fun is_dict :: "'v py_object \<Rightarrow> bool" where
  "is_dict (PyDict d) = True"
| "is_dict (PyStr s) = False"
| "is_dict (PySeq xs) = False"
| "is_dict (PyOther ty) = False"

definition only_dicts :: "'v py_messages \<Rightarrow> bool" where
  "only_dicts messages =
     (case messages of
        NotAList ty \<Rightarrow> True
      | MsgList msgs \<Rightarrow> list_all is_dict msgs)"

text \<open>The texts a consumer receives from chunks that are all delivered: each is the
  text before it followed by the content of its chunk.\<close>

fun snapshots :: "string \<Rightarrow> gen_response list \<Rightarrow> string list" where
  "snapshots t [] = []"
| "snapshots t (chunk # rest) =
     (t @ output_content chunk) # snapshots (t @ output_content chunk) rest"

text \<open>The number of \<open>update_monitor\<close> calls in a trace.\<close>

fun is_update :: "('v, 'r) event \<Rightarrow> bool" where
  "is_update (UpdateMonitor u) = True"
| "is_update (Request k) = False"
| "is_update (SaveInvocation k r) = False"

definition updates :: "('v, 'r) event list \<Rightarrow> nat" where
  "updates trace = length (filter is_update trace)"

subsection \<open>ZhipuAI chat\<close>

text \<open>\<open>CompletionUsage\<close>, and its \<open>model_dump()\<close>.\<close>

record completion_usage =
  prompt_tokens :: int
  completion_tokens :: int
  total_tokens :: int

definition usage_dump :: "completion_usage \<Rightarrow> (string \<times> int) list" where
  "usage_dump u =
     [(''prompt_tokens'', prompt_tokens u), (''completion_tokens'', completion_tokens u),
      (''total_tokens'', total_tokens u)]"

text \<open>
  The completion the ZhipuAI client returns: \<open>choices\<close> holds
  \<open>choices[i].message.content\<close> for each choice.
\<close>

record completion =
  choices :: "string list"
  completion_usage :: completion_usage

record 'v zhipuai_wrapper =
  z_model_name :: string
  z_generate_args :: "'v kwargs"

text \<open>
  A call \<open>f(a=..., b=..., **kwargs)\<close> raises \<open>TypeError\<close> when \<open>kwargs\<close> repeats one
  of the named arguments: the first key of \<open>kwargs\<close> that does is the one reported.  The
  message starts with the name of the callee, a function of the provider's library, written
  differently from one version of Python to the next; the part after it is kept.
\<close>

definition repeated_keyword :: "string list \<Rightarrow> (string \<times> 'a) list \<Rightarrow> string option" where
  "repeated_keyword named kwargs = find (\<lambda>k. k \<in> set named) (map fst kwargs)"

definition multiple_values_error :: "string \<Rightarrow> exn" where
  "multiple_values_error k =
     TypeError (''got multiple values for keyword argument '' @ [CHR 0x27] @ k @ [CHR 0x27])"

text \<open>\<open>ZhipuAIChatWrapper.__call__\<close>; \<open>create\<close> is \<open>client.chat.completions.create\<close>.\<close>

definition zhipuai_chat_call ::
  "'v zhipuai_wrapper \<Rightarrow> ('v kwargs \<Rightarrow> completion) \<Rightarrow> 'v py_messages \<Rightarrow> 'v kwargs
     \<Rightarrow> ('v, completion) event list
     \<Rightarrow> (exn + string \<times> completion) \<times> ('v, completion) event list" where
  "zhipuai_chat_call self create messages kwargs trace =
     (let kwargs = dict_update (z_generate_args self) kwargs
      in case messages of
           NotAList ty \<Rightarrow>
             (Inl (ValueError (''ZhipuAI `messages` field expected type `list`, got `''
                               @ ty @ ''` instead.'')), trace)
         | MsgList msgs \<Rightarrow>
             case all_have_role_and_content msgs of
               Inl e \<Rightarrow> (Inl e, trace)
             | Inr all_have \<Rightarrow>
             if \<not> all_have
             then (Inl (ValueError (''Each message in the 'messages' list must contain ''
                                    @ ''a 'role' and 'content' key for ZhipuAI API.'')),
                   trace)
             else case repeated_keyword [''model'', ''messages''] kwargs of
               Some k \<Rightarrow> (Inl (multiple_values_error k), trace)
             | None \<Rightarrow>
               (let arguments = dict_update
                                  [(''model'', KStr (z_model_name self)),
                                   (''messages'', KMessages msgs)] kwargs;
                    response = create arguments;
                    trace = trace @ [Request arguments];
                    trace = trace @ [SaveInvocation arguments response];
                    trace = trace @ [UpdateMonitor
                                       ((''call_counter'', 1)
                                        # usage_dump (completion_usage response))]
                in case choices response of
                     [] \<Rightarrow> (Inl (IndexError ''list index out of range''), trace)
                   | c # _ \<Rightarrow> (Inr (c, response), trace)))"

subsection \<open>The embedding wrappers\<close>

text \<open>
  One element of the list of embeddings in a response, for both providers: a dictionary
  with the vector under \<open>embedding\<close> and its position.
\<close>

record 'e embedding_item =
  item_index :: int
  embedding :: "'e list"

text \<open>The response of the ZhipuAI embedding API, and so its \<open>model_dump()\<close>.\<close>

record 'e embeddings_responded =
  data :: "'e embedding_item list"
  embeddings_usage :: completion_usage

text \<open>The error Python raises when a list is indexed by a string.\<close>

definition list_indices_error :: exn where
  "list_indices_error = TypeError ''list indices must be integers or slices, not str''"

text \<open>\<open>ZhipuAIEmbeddingWrapper.__call__\<close>; \<open>create\<close> is \<open>client.embeddings.create\<close>.\<close>

definition zhipuai_embedding_call ::
  "'v zhipuai_wrapper \<Rightarrow> ('v kwargs \<Rightarrow> 'e embeddings_responded) \<Rightarrow> string \<Rightarrow> 'v kwargs
     \<Rightarrow> ('v, 'e embeddings_responded) event list
     \<Rightarrow> (exn + 'e list list \<times> 'e embeddings_responded)
         \<times> ('v, 'e embeddings_responded) event list" where
  "zhipuai_embedding_call self create texts kwargs trace =
     (let kwargs = dict_update (z_generate_args self) kwargs;
          request = [(''input'', KStr texts), (''model'', KStr (z_model_name self))];
          response = create request;
          trace = trace @ [Request request];
          trace = trace @ [SaveInvocation
                             (dict_update [(''model'', KStr (z_model_name self)),
                                           (''input'', KStr texts)] kwargs)
                             response];
          trace = trace @ [UpdateMonitor
                             ((''call_counter'', 1) # usage_dump (embeddings_usage response))];
          response_json = response
      in if length (data response_json) = 0
         then (Inl list_indices_error, trace)
         else (Inr (map embedding (data response_json), response_json), trace))"

text \<open>
  The response of the DashScope text embedding API: \<open>output_embeddings\<close> is
  \<open>output["embeddings"]\<close>.
\<close>

record 'e embedding_response =
  e_request_id :: string
  e_status_code :: int
  e_code :: string
  e_message :: string
  output_embeddings :: "'e embedding_item list"
  e_usage :: "(string \<times> int) list"

text \<open>The \<open>texts\<close> argument: one string or a list of strings.\<close>

datatype texts = OneText string | Texts "string list"

fun texts_kwarg :: "texts \<Rightarrow> 'v kwarg" where
  "texts_kwarg (OneText s) = KStr s"
| "texts_kwarg (Texts ss) = KStrs ss"

record 'v dashscope_wrapper =
  d_model_name :: string
  d_generate_args :: "'v kwargs"

definition embedding_error_msg :: "'e embedding_response \<Rightarrow> string" where
  "embedding_error_msg response =
     '' Request id: '' @ e_request_id response @ '',''
     @ '' Status code: '' @ show_int (e_status_code response) @ '',''
     @ '' error code: '' @ e_code response @ '',''
     @ '' error message: '' @ e_message response @ ''.''"

text \<open>
  \<open>DashScopeTextEmbeddingWrapper.__call__\<close>; \<open>call\<close> is
  \<open>dashscope.TextEmbedding.call\<close>.
\<close>

definition dashscope_embedding_call ::
  "'v dashscope_wrapper \<Rightarrow> ('v kwargs \<Rightarrow> 'e embedding_response) \<Rightarrow> texts
     \<Rightarrow> 'v kwargs \<Rightarrow> ('v, 'e embedding_response) event list
     \<Rightarrow> (exn + 'e list list \<times> 'e embedding_response)
         \<times> ('v, 'e embedding_response) event list" where
  "dashscope_embedding_call self call texts kwargs trace =
     (let kwargs = dict_update (d_generate_args self) kwargs
      in case repeated_keyword [''input'', ''model''] kwargs of
           Some k \<Rightarrow> (Inl (multiple_values_error k), trace)
         | None \<Rightarrow>
           (let request = [(''input'', texts_kwarg texts),
                           (''model'', KStr (d_model_name self))] @ kwargs;
                response = call request;
                trace = trace @ [Request request]
            in if e_status_code response \<noteq> HTTP_OK
               then (Inl (RuntimeError (embedding_error_msg response)), trace)
               else
                 (let trace = trace @ [SaveInvocation
                                         (dict_update
                                            [(''model'', KStr (d_model_name self)),
                                             (''input'', texts_kwarg texts)] kwargs)
                                         response]
                  in if has_key ''call_counter'' (e_usage response)
                     then (Inl (multiple_values_error ''call_counter''), trace)
                     else (Inr (map embedding (output_embeddings response), response),
                           trace @ [UpdateMonitor
                                      ((''call_counter'', 1) # e_usage response)]))))"

section \<open>The SQL agent\<close>

text \<open>\<open>s.lower()\<close> on code points below 256: the letters \<open>A\<close> to \<open>Z\<close> and the
  capital letters of Latin-1 move up by 32.\<close>

definition lower_char :: "char \<Rightarrow> char" where
  "lower_char c =
     (let n = (of_char c :: nat)
      in if (65 \<le> n \<and> n \<le> 90) \<or> (192 \<le> n \<and> n \<le> 222 \<and> n \<noteq> 215)
         then char_of (n + 32) else c)"

definition lower :: "string \<Rightarrow> string" where
  "lower s = map lower_char s"

text \<open>
  What the agent works with and does not define: the model behind \<open>self.model\<close>,
  \<open>query_sqlite\<close> and the prompt generator of \<open>sql_utils\<close>.  The model and the query
  may raise, and may answer the same text differently from one call to the next: both take
  the number of calls made before.  \<open>generate_prompt\<close> is
  \<open>prompt_helper.generate_prompt(x)["prompt"]\<close>.
\<close>

record sql_env =
  model_text :: "nat \<Rightarrow> string \<Rightarrow> exn + string"
  query_sqlite :: "nat \<Rightarrow> string \<Rightarrow> exn + string"
  is_sql_question_prompt :: "string \<Rightarrow> string"
  generate_prompt :: "string msg \<Rightarrow> string"
  describe_sql :: string

text \<open>The attributes of an \<open>SQLAgent\<close>, and \<open>__init__\<close>.\<close>

record sql_agent =
  sql_agent_name :: string
  db_id :: string
  db_path :: string
  max_retries :: nat
  self_intro :: string
  start_intro :: string

definition sql_agent_init :: "string \<Rightarrow> string \<Rightarrow> string \<Rightarrow> sql_agent" where
  "sql_agent_init name' db_id' db_path' =
     \<lparr>sql_agent_name = name', db_id = db_id', db_path = db_path', max_retries = 3,
      self_intro = ''Hi, I am an agent able to preform SQL querys'' @ [CHR 0x0A]
        @ ''        base on natual language instructions.'' @ [CHR 0x0A]
        @ ''        Below is a description of the database '' @ db_id' @ '' provided.'',
      start_intro = ''Is there any you want to'' @ [CHR 0x0A]
        @ ''        ask about the database '' @ db_id' @ ''?''\<rparr>"

text \<open>
  What a call of \<open>reply\<close> leaves behind: the prompts sent to the model, the queries run,
  the lines printed and the messages spoken, each in order.
\<close>

record sql_world =
  model_calls :: "string list"
  queries :: "string list"
  printed :: "string list"
  spoken :: "string msg list"

text \<open>\<open>self.model([{"role": "assistant", "content": prompt}]).text\<close>.\<close>

definition call_model :: "sql_env \<Rightarrow> string \<Rightarrow> sql_world \<Rightarrow> (exn + string) \<times> sql_world" where
  "call_model env prompt w =
     (model_text env (length (model_calls w)) prompt,
      w\<lparr>model_calls := model_calls w @ [prompt]\<rparr>)"

definition run_query :: "sql_env \<Rightarrow> string \<Rightarrow> sql_world \<Rightarrow> (exn + string) \<times> sql_world" where
  "run_query env sql w =
     (query_sqlite env (length (queries w)) sql, w\<lparr>queries := queries w @ [sql]\<rparr>)"

definition print :: "string \<Rightarrow> sql_world \<Rightarrow> sql_world" where
  "print line w = w\<lparr>printed := printed w @ [line]\<rparr>"

definition speak :: "string msg \<Rightarrow> sql_world \<Rightarrow> sql_world" where
  "speak m w = w\<lparr>spoken := spoken w @ [m]\<rparr>"

definition get_response_from_prompt ::
  "sql_env \<Rightarrow> string \<Rightarrow> sql_world \<Rightarrow> (exn + string) \<times> sql_world" where
  "get_response_from_prompt env prompt w =
     (case call_model env prompt w of
        (Inl e, w) \<Rightarrow> (Inl e, w)
      | (Inr sql, w) \<Rightarrow> (Inr (sql_from_model_text sql), w))"

definition answer_from_result ::
  "sql_env \<Rightarrow> string \<Rightarrow> string \<Rightarrow> sql_world \<Rightarrow> (exn + string) \<times> sql_world" where
  "answer_from_result env question response_text w =
     call_model env
       (''Given the sql query and and the result,'' @ [CHR 0x0A]
        @ ''        answer the user's question.'' @ [CHR 0x0A]
        @ ''        '' @ [CHR 0x0A] @ '' User question: '' @ question @ '' '' @ [CHR 0x0A]
        @ '' '' @ response_text) w"

definition is_question_related ::
  "sql_env \<Rightarrow> string \<Rightarrow> sql_world \<Rightarrow> (exn + string) \<times> sql_world" where
  "is_question_related env question w =
     call_model env (is_sql_question_prompt env question) w"

text \<open>The body of the \<open>try\<close> statement of \<open>reply\<close>: the exception that leaves it, or the
  message it has built and spoken.\<close>

definition try_query ::
  "sql_env \<Rightarrow> sql_agent \<Rightarrow> string \<Rightarrow> string msg \<Rightarrow> sql_world
     \<Rightarrow> (exn + string msg) \<times> sql_world" where
  "try_query env self prompt x w =
     (case get_response_from_prompt env prompt w of
        (Inl e, w) \<Rightarrow> (Inl e, w)
      | (Inr sql_response, w) \<Rightarrow>
          (case run_query env sql_response w of
             (Inl e, w) \<Rightarrow> (Inl e, w)
           | (Inr exec_result, w) \<Rightarrow>
               (let response_text =
                      ''Generated SQL query is: '' @ sql_response @ '' '' @ [CHR 0x0A, CHR 0x0A]
                      @ ''                The execution result is: '' @ exec_result
                in case answer_from_result env (content x) response_text w of
                     (Inl e, w) \<Rightarrow> (Inl e, w)
                   | (Inr answer, w) \<Rightarrow>
                       (let response_text = response_text @ [CHR 0x0A, CHR 0x0A] @ answer;
                            result = response_text;
                            msg = \<lparr>name = sql_agent_name self, role = ''sql assistant'',
                                   content = result\<rparr>
                        in (Inr msg, speak msg w)))))"

definition retry_notice :: "nat \<Rightarrow> nat \<Rightarrow> string" where
  "retry_notice attempt retries =
     ''We fail to execute the generated query.Attempt '' @ show_nat (attempt + 1)
     @ '' of '' @ show_nat retries @ '' failed. Retrying!''"

definition failure_notice :: "nat \<Rightarrow> string" where
  "failure_notice retries =
     ''Sorry, the agent failed to execute query after '' @ show_nat retries @ '' attempts''"

text \<open>
  The \<open>while\<close> loop of \<open>reply\<close> from the value \<open>attempt\<close> of its counter: the locals
  \<open>result\<close> and \<open>msg\<close> after it, \<open>None\<close> for one that was never assigned.
\<close>

function attempts ::
  "sql_env \<Rightarrow> sql_agent \<Rightarrow> string \<Rightarrow> string msg \<Rightarrow> nat \<Rightarrow> sql_world
     \<Rightarrow> string option \<times> string msg option \<times> sql_world" where
  "attempts env self prompt x attempt w =
     (if attempt < max_retries self
      then (case try_query env self prompt x w of
              (Inr msg, w) \<Rightarrow> (Some (content msg), Some msg, w)
            | (Inl e, w) \<Rightarrow>
                attempts env self prompt x (attempt + 1)
                  (print (retry_notice attempt (max_retries self)) w))
      else (None, None, w))"
  by pat_completeness auto

termination attempts
  by (relation "measure (\<lambda>(env, self, prompt, x, attempt, w). max_retries self - attempt)")
     auto

declare attempts.simps [simp del]

text \<open>\<open>SQLAgent.reply\<close>: the message returned or the exception raised, and what the call
  left behind.  \<open>UnboundLocalError\<close> carries the name of the local that was read.\<close>

definition sql_reply ::
  "sql_env \<Rightarrow> sql_agent \<Rightarrow> string msg option \<Rightarrow> sql_world
     \<Rightarrow> (exn + string msg) \<times> sql_world" where
  "sql_reply env self x w =
     (case x of
        None \<Rightarrow>
          (case call_model env (describe_sql env) w of
             (Inl e, w) \<Rightarrow> (Inl e, w)
           | (Inr described, w) \<Rightarrow>
               (let response = join [CHR 0x0A, CHR 0x0A]
                                 [self_intro self, described, start_intro self];
                    msg = \<lparr>name = sql_agent_name self, role = ''sql assistant'',
                           content = response\<rparr>
                in (Inr msg, speak msg w)))
      | Some x \<Rightarrow>
          (case is_question_related env (content x) w of
             (Inl e, w) \<Rightarrow> (Inl e, w)
           | (Inr is_sql_response, w) \<Rightarrow>
               if lower is_sql_response \<noteq> ''yes''
               then (let msg = \<lparr>name = sql_agent_name self, role = ''sql assistant'',
                                content = is_sql_response\<rparr>
                     in (Inr msg, speak msg w))
               else
                 (let prepared_prompt = generate_prompt env x
                  in case attempts env self prepared_prompt x 0 w of
                       (result, msg, w) \<Rightarrow>
                         (let w = (if result = None
                                   then print (failure_notice (max_retries self)) w else w)
                          in case msg of
                               None \<Rightarrow> (Inl (UnboundLocalError ''msg''), w)
                             | Some m \<Rightarrow> (Inr m, w)))))"

section \<open>The CodeAct agent\<close>

definition SYSTEM_MESSAGE :: string where
  "SYSTEM_MESSAGE =
     ''system''
     @ [CHR 0x0A]
     @ ''You are a helpful assistant that gives helpful, detailed, and polite ''
     @ ''answers to the user's questions.''
     @ [CHR 0x0A]
     @ ''You should interact with the interactive Python (Jupyter Notebook) ''
     @ ''environment and receive the corresponding output when needed. The ''
     @ ''code written by assistant should be enclosed using [execute] tag, for ''
     @ ''example: [execute] print('Hello World!') [/execute].''
     @ [CHR 0x0A]
     @ ''You should attempt fewer things at a time instead of putting too much ''
     @ ''code in one [execute] block. You can install packages through PIP by ''
     @ ''[execute] !pip install [package needed] [/execute] and should always ''
     @ ''import packages and define variables before starting to use them.''
     @ [CHR 0x0A]
     @ ''You should stop [execute] and provide an answer when they have ''
     @ ''already obtained the answer from the execution result. Whenever ''
     @ ''possible, execute the code for the user using [execute] instead of ''
     @ ''providing it.''
     @ [CHR 0x0A]
     @ ''Your response should be concise, but do express their thoughts. ''
     @ ''Always write the code in [execute] block to execute them.''
     @ [CHR 0x0A]
     @ ''You should not ask for the user's input unless necessary. Solve the ''
     @ ''task on your own and leave no unanswered questions behind.''
     @ [CHR 0x0A]
     @ ''You should do every thing by your self.''
     @ [CHR 0x0A]"

text \<open>\<open>EXAMPLE_MESSAGE.format(example_code=example_code)\<close>.\<close>

definition EXAMPLE_MESSAGE :: "string \<Rightarrow> string" where
  "EXAMPLE_MESSAGE example_code' =
     [CHR 0x0A]
     @ ''Additionally, you are provided with the following code available:''
     @ [CHR 0x0A]
     @ example_code'
     @ [CHR 0x0A]
     @ ''The above code is already available in your interactive Python ''
     @ ''(Jupyter Notebook) environment, allowing you to directly use these ''
     @ ''variables and functions without needing to redeclare them.''
     @ [CHR 0x0A]"

text \<open>\<open>ServiceResponse\<close>, with the text of its content.\<close>

datatype service_exec_status = SUCCESS | ERROR

record service_response =
  status :: service_exec_status
  service_content :: string

text \<open>
  What the agent works with and does not define: the model, as the text of
  \<open>self.model(self.model.format(memory))\<close> for the memory it is given, and the notebook
  executor, whose state is of a type \<open>'nb\<close>.
\<close>

record 'nb codeact_env =
  model_response_text :: "string msg list \<Rightarrow> string"
  run_code_on_notebook :: "'nb \<Rightarrow> string \<Rightarrow> service_response \<times> 'nb"

text \<open>What the agent does, in the order it does it.\<close>

datatype codeact_event =
    ModelCall "string msg list"
  | Speak "string msg"
  | RunCode string

text \<open>The attributes of a \<open>CodeActAgent\<close>, and with them the events so far.\<close>

record 'nb codeact_agent =
  codeact_agent_name :: string
  n_max_executions :: nat
  example_code :: string
  code_executor :: 'nb
  memory :: "string msg list"
  events :: "codeact_event list"

text \<open>\<open>self.memory.add(x)\<close>: nothing is added for \<open>None\<close>.\<close>

fun memory_add :: "string msg option \<Rightarrow> 'nb codeact_agent \<Rightarrow> 'nb codeact_agent" where
  "memory_add None self = self"
| "memory_add (Some m) self = self\<lparr>memory := memory self @ [m]\<rparr>"

definition codeact_speak :: "string msg \<Rightarrow> 'nb codeact_agent \<Rightarrow> 'nb codeact_agent" where
  "codeact_speak m self = self\<lparr>events := events self @ [Speak m]\<rparr>"

text \<open>
  The text after the first occurrence of \<open>sep\<close>, and the text before the last one, if
  \<open>sep\<close> occurs.
\<close>

fun after_first :: "string \<Rightarrow> string \<Rightarrow> string option" where
  "after_first sep [] = (if sep = [] then Some [] else None)"
| "after_first sep (c # cs) =
     (if startswith (c # cs) sep then Some (drop (length sep) (c # cs))
      else after_first sep cs)"

fun before_last :: "string \<Rightarrow> string \<Rightarrow> string option" where
  "before_last sep [] = (if sep = [] then Some [] else None)"
| "before_last sep (c # cs) =
     (case before_last sep cs of
        Some pre \<Rightarrow> Some (c # pre)
      | None \<Rightarrow> if startswith (c # cs) sep then Some [] else None)"

text \<open>
  \<open>re.search(r"\[execute\](.*)\[/execute\]", response_text, re.DOTALL)\<close>: \<open>None\<close> when
  there is no match, the text of group 1 otherwise.  The match starts at the first
  \<open>[execute]\<close> and, \<open>.*\<close> being greedy, ends with the last \<open>[/execute]\<close> after it.
\<close>

definition search_execute :: "string \<Rightarrow> string option" where
  "search_execute response_text =
     (case after_first ''[execute]'' response_text of
        None \<Rightarrow> None
      | Some rest \<Rightarrow> before_last ''[/execute]'' rest)"

definition handle_code_execution ::
  "'nb codeact_env \<Rightarrow> string \<Rightarrow> 'nb codeact_agent
     \<Rightarrow> service_response option \<times> 'nb codeact_agent" where
  "handle_code_execution env response_text self =
     (case search_execute response_text of
        Some group1 \<Rightarrow>
          (let source = strip group1;
               (result, nb) = run_code_on_notebook env (code_executor self) source
           in (Some result,
               self\<lparr>code_executor := nb, events := events self @ [RunCode source]\<rparr>))
      | None \<Rightarrow> (None, self))"

definition handle_code_result :: "service_response \<Rightarrow> string \<Rightarrow> string msg" where
  "handle_code_result code_execution_result content_pre_sring =
     (let code_exec_content = content_pre_sring;
          code_exec_content =
            (if status code_execution_result = SUCCESS
             then code_exec_content @ ''Excution Successful:'' @ [CHR 0x0A]
             else code_exec_content @ ''Excution Failed:'' @ [CHR 0x0A]);
          code_exec_content =
            code_exec_content @ ''Execution Output:'' @ [CHR 0x0A]
            @ service_content code_execution_result
      in \<lparr>name = ''user'', role = ''user'', content = code_exec_content\<rparr>)"

text \<open>\<open>CodeActAgent.__init__\<close>; \<open>nb\<close> is the new \<open>NoteBookExecutor()\<close>.\<close>

definition codeact_init ::
  "'nb codeact_env \<Rightarrow> 'nb \<Rightarrow> string \<Rightarrow> string \<Rightarrow> 'nb codeact_agent" where
  "codeact_init env nb name' example_code' =
     (let self = \<lparr>codeact_agent_name = name', n_max_executions = 5,
                   example_code = example_code', code_executor = nb,
                   memory = [], events = []\<rparr>;
          sys_msg = \<lparr>name = ''system'', role = ''system'', content = SYSTEM_MESSAGE\<rparr>;
          example_msg = \<lparr>name = ''user'', role = ''user'',
                         content = EXAMPLE_MESSAGE (example_code self)\<rparr>;
          self = memory_add (Some sys_msg) self
      in if example_code self \<noteq> []
         then (let (code_execution_result, nb) =
                     run_code_on_notebook env (code_executor self) (example_code self);
                   self = self\<lparr>code_executor := nb,
                               events := events self @ [RunCode (example_code self)]\<rparr>;
                   code_exec_msg = handle_code_result code_execution_result
                                     ''Example Code excuted: '';
                   self = memory_add (Some example_msg) self;
                   self = memory_add (Some code_exec_msg) self
               in codeact_speak code_exec_msg self)
         else self)"

text \<open>The body of the \<open>while\<close> loop of \<open>reply\<close>, once.\<close>

definition loop_body ::
  "'nb codeact_env \<Rightarrow> nat \<Rightarrow> 'nb codeact_agent \<Rightarrow> nat \<times> 'nb codeact_agent" where
  "loop_body env excution_count self =
     (let prompt = memory self;
          model_res_text = model_response_text env prompt;
          self = self\<lparr>events := events self @ [ModelCall prompt]\<rparr>;
          msg_res = \<lparr>name = codeact_agent_name self, role = ''assistant'',
                     content = model_res_text\<rparr>;
          self = memory_add (Some msg_res) self;
          self = codeact_speak msg_res self
      in case handle_code_execution env model_res_text self of
           (Some code_execution_result, self) \<Rightarrow>
             (let code_exec_msg = handle_code_result code_execution_result [];
                  self = memory_add (Some code_exec_msg) self
              in (excution_count + 1, codeact_speak code_exec_msg self))
         | (None, self) \<Rightarrow> (excution_count, self))"

text \<open>
  The loop from the value \<open>excution_count\<close> of its counter;
  \<open>self.memory.get_memory(1)[-1]\<close> is the last message of the memory and raises
  \<open>IndexError\<close> on an empty one.
\<close>

function reply_loop ::
  "'nb codeact_env \<Rightarrow> nat \<Rightarrow> 'nb codeact_agent \<Rightarrow> exn + nat \<times> 'nb codeact_agent" where
  "reply_loop env excution_count self =
     (if memory self = [] then Inl (IndexError ''list index out of range'')
      else if role (last (memory self)) = ''user''
              \<and> excution_count < n_max_executions self
      then (case loop_body env excution_count self of
              (excution_count, self) \<Rightarrow> reply_loop env excution_count self)
      else Inr (excution_count, self))"
  by pat_completeness auto

termination reply_loop
  by (relation "measure (\<lambda>(env, excution_count, self).
                  2 * (n_max_executions self - excution_count)
                  + (if role (last (memory self)) = ''user'' then 1 else 0))")
     (auto simp: loop_body_def handle_code_execution_def codeact_speak_def Let_def
           split: option.splits prod.splits)

declare reply_loop.simps [simp del]

definition max_executions_msg :: "nat \<Rightarrow> string msg" where
  "max_executions_msg n =
     \<lparr>name = ''assitant'', role = ''assistant'',
      content = ''I have reached the maximum number ''
                @ ''of executions (self.n_max_executions='' @ show_nat n @ ''). ''
                @ ''Can you assist me or ask me another question?''\<rparr>"

text \<open>\<open>CodeActAgent.reply\<close>: the agent after the call, or the exception raised.\<close>

definition codeact_reply ::
  "'nb codeact_env \<Rightarrow> 'nb codeact_agent \<Rightarrow> string msg option \<Rightarrow> exn + 'nb codeact_agent"
  where
  "codeact_reply env self x =
     (case reply_loop env 0 (memory_add x self) of
        Inl e \<Rightarrow> Inl e
      | Inr (excution_count, self) \<Rightarrow>
          if excution_count = n_max_executions self
          then (if memory self = [] then Inl (IndexError ''list index out of range'')
                else if role (last (memory self)) \<noteq> ''user'' then Inl AssertionError
                else (let code_max_exec_msg = max_executions_msg (n_max_executions self);
                          self = memory_add (Some code_max_exec_msg) self
                      in Inr (codeact_speak code_max_exec_msg self)))
          else Inr self)"

text \<open>The kind of an event.\<close>

datatype action = Model | Say | Run

fun action_of :: "codeact_event \<Rightarrow> action" where
  "action_of (ModelCall p) = Model"
| "action_of (Speak m) = Say"
| "action_of (RunCode c) = Run"

section \<open>Properties of the generation step\<close>

text \<open>
  C4. The SQL-prefix correction on the three outputs of the specification: the model
  texts \<open>id FROM singer\<close>, the same with a leading space, and \<open>SELECT id FROM singer\<close>
  all give \<open>SELECT id FROM singer\<close> followed by a newline.
\<close>

theorem sql_prefix_correction:
  "sql_from_model_text ''id FROM singer'' = ''SELECT id FROM singer'' @ [CHR 0x0A] \<and>
   sql_from_model_text '' id FROM singer'' = ''SELECT id FROM singer'' @ [CHR 0x0A] \<and>
   sql_from_model_text ''SELECT id FROM singer'' = ''SELECT id FROM singer'' @ [CHR 0x0A]"
  by (simp add: sql_from_model_text_def process_duplication_def split_def strip_def
      replace_char_def isspace_def whitespace_def)


section \<open>Properties of the chat formatter\<close>

lemma format_loop_tail:
  "0 < i \<Longrightarrow> format_loop conv i ms messages dialogue
     = (messages, dialogue @ map (dialogue_line conv) ms)"
  by (induction ms arbitrary: i dialogue) (simp_all add: dialogue_line_def)

lemma format_msgs_system:
  "role m = ''system'' \<Longrightarrow>
   format_msgs conv (m # ms)
     = [[(''role'', ''system''), (''content'', conv (content m))], history_entry conv ms]"
  by (simp add: format_msgs_def format_loop_tail history_entry_def)

lemma format_msgs_no_system:
  "\<not> leading_system ms \<Longrightarrow> format_msgs conv ms = [history_entry conv ms]"
proof (cases ms)
  case Nil
  then show ?thesis by (simp add: format_msgs_def history_entry_def)
next
  case (Cons m rest)
  assume "\<not> leading_system ms"
  with Cons have "role m \<noteq> ''system''" by simp
  with Cons show ?thesis
    by (simp add: format_msgs_def format_loop_tail history_entry_def dialogue_line_def)
qed

text \<open>
  C3. When the gathered message sequence starts with a message of role \<open>system\<close>, both
  chat formatters return exactly two entries: a system entry carrying the content of that
  message, then one user entry whose content is the header \<open>## Dialogue History\<close>, a
  newline, and the lines \<open>name: content\<close> of all later messages in their order, joined by
  newlines.
\<close>

theorem chat_format_leading_system:
  assumes "parse_args args [] = Inr (m # ms)" and "role m = ''system''"
  shows "dashscope_chat_format conv args
           = Inr [[(''role'', ''system''), (''content'', conv (content m))],
                  [(''role'', ''user''),
                   (''content'', ''## Dialogue History'' @ [CHR 0x0A]
                      @ join [CHR 0x0A] (map (\<lambda>u. name u @ '': '' @ conv (content u)) ms))]]
       \<and> zhipuai_chat_format conv args = dashscope_chat_format conv args"
  using assms format_msgs_system [of m conv ms]
  by (simp add: dashscope_chat_format_def zhipuai_chat_format_def history_entry_def
      dialogue_line_def [abs_def])

theorem chat_format_leading_system_witness:
  "dashscope_chat_format id
     [ArgMsg \<lparr>name = ''system'', role = ''system'', content = ''Be brief''\<rparr>,
      ArgList [ItemMsg \<lparr>name = ''Bob'', role = ''assistant'', content = ''Hi''\<rparr>,
               ItemMsg \<lparr>name = ''user'', role = ''user'', content = ''Date?''\<rparr>]]
     = Inr [[(''role'', ''system''), (''content'', ''Be brief'')],
            [(''role'', ''user''),
             (''content'', ''## Dialogue History'' @ [CHR 0x0A] @ ''Bob: Hi''
                 @ [CHR 0x0A] @ ''user: Date?'')]]"
  using chat_format_leading_system
    [of "[ArgMsg \<lparr>name = ''system'', role = ''system'', content = ''Be brief''\<rparr>,
          ArgList [ItemMsg \<lparr>name = ''Bob'', role = ''assistant'', content = ''Hi''\<rparr>,
                   ItemMsg \<lparr>name = ''user'', role = ''user'', content = ''Date?''\<rparr>]]"
        "\<lparr>name = ''system'', role = ''system'', content = ''Be brief''\<rparr>"
        "[\<lparr>name = ''Bob'', role = ''assistant'', content = ''Hi''\<rparr>,
          \<lparr>name = ''user'', role = ''user'', content = ''Date?''\<rparr>]" id]
  by simp

text \<open>
  C9. When the gathered message sequence is empty or starts with a message whose role is
  not \<open>system\<close>, both chat formatters return exactly one entry, and its role is \<open>user\<close>.
\<close>

theorem chat_format_no_leading_system:
  assumes "parse_args args [] = Inr ms" and "\<not> leading_system ms"
  shows "\<exists>text. dashscope_chat_format conv args
                  = Inr [[(''role'', ''user''), (''content'', text)]]
              \<and> zhipuai_chat_format conv args
                  = Inr [[(''role'', ''user''), (''content'', text)]]"
  using assms format_msgs_no_system [of ms conv]
  by (simp add: dashscope_chat_format_def zhipuai_chat_format_def history_entry_def)

theorem chat_format_no_leading_system_witness:
  "(\<exists>text. dashscope_chat_format id ([] :: string format_arg list)
              = Inr [[(''role'', ''user''), (''content'', text)]]
          \<and> zhipuai_chat_format id ([] :: string format_arg list)
              = Inr [[(''role'', ''user''), (''content'', text)]])
   \<and> (\<exists>text. dashscope_chat_format id
                [ArgMsg \<lparr>name = ''Bob'', role = ''assistant'', content = ''Hi''\<rparr>,
                 ArgMsg \<lparr>name = ''sys'', role = ''system'', content = ''late''\<rparr>]
              = Inr [[(''role'', ''user''), (''content'', text)]]
          \<and> zhipuai_chat_format id
                [ArgMsg \<lparr>name = ''Bob'', role = ''assistant'', content = ''Hi''\<rparr>,
                 ArgMsg \<lparr>name = ''sys'', role = ''system'', content = ''late''\<rparr>]
              = Inr [[(''role'', ''user''), (''content'', text)]])"
  using chat_format_no_leading_system [of "[]" "[] :: string msg list" id]
    chat_format_no_leading_system
      [of "[ArgMsg \<lparr>name = ''Bob'', role = ''assistant'', content = ''Hi''\<rparr>,
            ArgMsg \<lparr>name = ''sys'', role = ''system'', content = ''late''\<rparr>]"
          "[\<lparr>name = ''Bob'', role = ''assistant'', content = ''Hi''\<rparr>,
            \<lparr>name = ''sys'', role = ''system'', content = ''late''\<rparr>]" id]
  by simp


section \<open>Properties of the chat wrappers\<close>

lemma has_key_iff: "has_key k d \<longleftrightarrow> k \<in> fst ` set d"
  by (simp add: has_key_def map_of_eq_None_iff)

lemma all_have_dicts:
  "list_all is_dict msgs \<Longrightarrow>
   all_have_role_and_content msgs
     = Inr (\<forall>msg \<in> set msgs. ''role'' \<in> keys msg \<and> ''content'' \<in> keys msg)"
proof (induction msgs)
  case Nil
  then show ?case by simp
next
  case (Cons msg msgs)
  then obtain d where "msg = PyDict d" by (cases msg) simp_all
  with Cons show ?case by (auto simp: has_key_iff)
qed

lemma malformed_iff:
  "only_dicts messages \<Longrightarrow>
   malformed messages \<longleftrightarrow>
     (case messages of NotAList ty \<Rightarrow> True
      | MsgList msgs \<Rightarrow> all_have_role_and_content msgs = Inr False)"
  by (auto simp: malformed_def only_dicts_def all_have_dicts split: py_messages.splits)

lemma all_have_cases:
  "only_dicts (MsgList msgs) \<Longrightarrow>
   all_have_role_and_content msgs = Inr False \<or> all_have_role_and_content msgs = Inr True"
  by (auto simp: only_dicts_def all_have_dicts)

lemma dashscope_value_error_iff:
  assumes "only_dicts messages"
  shows "(\<exists>text. fst (dashscope_chat_call self api messages stream kwargs trace)
                  = Inl (ValueError text)) \<longleftrightarrow> malformed messages"
proof (cases messages)
  case (NotAList ty)
  then show ?thesis by (simp add: malformed_def dashscope_chat_call_def)
next
  case (MsgList msgs)
  from assms MsgList all_have_cases [of msgs]
  consider (bad) "all_have_role_and_content msgs = Inr False"
    | (good) "all_have_role_and_content msgs = Inr True"
    by auto
  then show ?thesis
  proof cases
    case bad
    with assms MsgList malformed_iff [of messages] show ?thesis
      by (simp add: dashscope_chat_call_def)
  next
    case good
    with assms MsgList malformed_iff [of messages] show ?thesis
      by (auto simp: dashscope_chat_call_def Let_def split: if_splits)
  qed
qed

lemma zhipuai_value_error_iff:
  assumes "only_dicts messages"
  shows "(\<exists>text. fst (zhipuai_chat_call self create messages kwargs trace)
                  = Inl (ValueError text)) \<longleftrightarrow> malformed messages"
proof (cases messages)
  case (NotAList ty)
  then show ?thesis by (simp add: malformed_def zhipuai_chat_call_def)
next
  case (MsgList msgs)
  from assms MsgList all_have_cases [of msgs]
  consider (bad) "all_have_role_and_content msgs = Inr False"
    | (good) "all_have_role_and_content msgs = Inr True"
    by auto
  then show ?thesis
  proof cases
    case bad
    with assms MsgList malformed_iff [of messages] show ?thesis
      by (simp add: zhipuai_chat_call_def)
  next
    case good
    with assms MsgList malformed_iff [of messages] show ?thesis
      by (auto simp: zhipuai_chat_call_def Let_def multiple_values_error_def
          split: option.splits list.splits)
  qed
qed

lemma dashscope_malformed_trace:
  assumes "only_dicts messages" and "malformed messages"
  shows "snd (dashscope_chat_call self api messages stream kwargs trace) = trace"
  using assms malformed_iff [of messages]
  by (auto simp: dashscope_chat_call_def Let_def split: py_messages.splits)

lemma zhipuai_malformed_trace:
  assumes "only_dicts messages" and "malformed messages"
  shows "snd (zhipuai_chat_call self create messages kwargs trace) = trace"
  using assms malformed_iff [of messages]
  by (auto simp: zhipuai_chat_call_def Let_def split: py_messages.splits)

text \<open>
  C6, with the condition it needs.  For a \<open>messages\<close> argument that is not a list, or is
  a list of dictionaries, a chat wrapper call raises the validation error exactly when
  \<open>messages\<close> is not a list or one of its elements lacks the key \<open>role\<close> or the key
  \<open>content\<close>, for the DashScope and the ZhipuAI wrapper alike; and then the events of the
  call are those before it: no request has gone to the provider, once or again.
\<close>

theorem chat_call_validation:
  assumes "only_dicts messages"
  shows "((\<exists>text. fst (dashscope_chat_call self api messages stream kwargs trace)
                   = Inl (ValueError text)) \<longleftrightarrow> malformed messages)
       \<and> ((\<exists>text. fst (zhipuai_chat_call zself create messages zkwargs ztrace)
                    = Inl (ValueError text)) \<longleftrightarrow> malformed messages)
       \<and> (malformed messages \<longrightarrow>
            snd (dashscope_chat_call self api messages stream kwargs trace) = trace
            \<and> snd (zhipuai_chat_call zself create messages zkwargs ztrace) = ztrace)"
  using dashscope_value_error_iff [OF assms, of self api stream kwargs trace]
    zhipuai_value_error_iff [OF assms, of zself create zkwargs ztrace]
    dashscope_malformed_trace [OF assms, of self api stream kwargs trace]
    zhipuai_malformed_trace [OF assms, of zself create zkwargs ztrace]
  by blast

theorem chat_call_validation_witness:
  "malformed (MsgList [PyDict [(''role'', ''user''), (''content'', ''Hi'')],
                       PyDict [(''role'', ''user'')]] :: string py_messages)
   \<and> (\<exists>text. fst (dashscope_chat_call
                     \<lparr>model_name = ''qwen-max'', generate_args = [], stream_default = False\<rparr>
                     \<lparr>call_blocking = (\<lambda>k. \<lparr>request_id = ''r1'', status_code = 200, code = [],
                                              message = [], output_content = ''Hello'',
                                              usage = []\<rparr>),
                      call_stream = (\<lambda>k. [])\<rparr>
                     (MsgList [PyDict [(''role'', ''user''), (''content'', ''Hi'')],
                               PyDict [(''role'', ''user'')]] :: string py_messages)
                     None [] [])
                = Inl (ValueError text))
   \<and> snd (dashscope_chat_call
             \<lparr>model_name = ''qwen-max'', generate_args = [], stream_default = False\<rparr>
             \<lparr>call_blocking = (\<lambda>k. \<lparr>request_id = ''r1'', status_code = 200, code = [],
                                      message = [], output_content = ''Hello'', usage = []\<rparr>),
              call_stream = (\<lambda>k. [])\<rparr>
             (MsgList [PyDict [(''role'', ''user''), (''content'', ''Hi'')],
                       PyDict [(''role'', ''user'')]] :: string py_messages)
             None [] []) = []
   \<and> \<not> malformed (MsgList [PyDict [(''role'', ''user''), (''content'', ''Hi'')]]
                   :: string py_messages)
   \<and> \<not> (\<exists>text. fst (zhipuai_chat_call
                     \<lparr>z_model_name = ''glm-4'', z_generate_args = []\<rparr>
                     (\<lambda>k. \<lparr>choices = [''Hello''],
                           completion_usage = \<lparr>prompt_tokens = 1, completion_tokens = 1,
                                               total_tokens = 2\<rparr>\<rparr>)
                     (MsgList [PyDict [(''role'', ''user''), (''content'', ''Hi'')]]
                        :: string py_messages)
                     [] [])
                = Inl (ValueError text))"
  using chat_call_validation
    [where messages = "MsgList [PyDict [(''role'', ''user''), (''content'', ''Hi'')],
                                PyDict [(''role'', ''user'')]] :: string py_messages"
       and self = "\<lparr>model_name = ''qwen-max'', generate_args = [], stream_default = False\<rparr>"
       and api = "\<lparr>call_blocking = (\<lambda>k. \<lparr>request_id = ''r1'', status_code = 200, code = [],
                                 message = [], output_content = ''Hello'', usage = []\<rparr>),
          call_stream = (\<lambda>k. [])\<rparr>"
       and stream = None and kwargs = "[]" and trace = "[]"
       and zself = "\<lparr>z_model_name = ''glm-4'', z_generate_args = []\<rparr>"
       and create = "\<lambda>k. \<lparr>choices = [''Hello''],
              completion_usage = \<lparr>prompt_tokens = 1, completion_tokens = 1,
                                  total_tokens = 2\<rparr>\<rparr>"
       and zkwargs = "[]" and ztrace = "[]"]
    chat_call_validation
    [where messages = "MsgList [PyDict [(''role'', ''user''), (''content'', ''Hi'')]]
                         :: string py_messages"
       and self = "\<lparr>model_name = ''qwen-max'', generate_args = [], stream_default = False\<rparr>"
       and api = "\<lparr>call_blocking = (\<lambda>k. \<lparr>request_id = ''r1'', status_code = 200, code = [],
                                 message = [], output_content = ''Hello'', usage = []\<rparr>),
          call_stream = (\<lambda>k. [])\<rparr>"
       and stream = None and kwargs = "[]" and trace = "[]"
       and zself = "\<lparr>z_model_name = ''glm-4'', z_generate_args = []\<rparr>"
       and create = "\<lambda>k. \<lparr>choices = [''Hello''],
              completion_usage = \<lparr>prompt_tokens = 1, completion_tokens = 1,
                                  total_tokens = 2\<rparr>\<rparr>"
       and zkwargs = "[]" and ztrace = "[]"]
  by (simp add: malformed_def only_dicts_def)

text \<open>
  C6 as the specification words it fails on a list with an element that is a string.  The
  string \<open>role and content\<close> has no key, so the argument is malformed; but \<open>in\<close> on a
  string looks for a part of it, the test of step 2 passes, and both wrappers send the request
  and return the model's text.
\<close>

theorem chat_call_validation_str_element:
  "malformed (MsgList [PyStr ''role and content''] :: string py_messages)
   \<and> dashscope_chat_call
       \<lparr>model_name = ''qwen-max'', generate_args = [], stream_default = False\<rparr>
       \<lparr>call_blocking = (\<lambda>k. \<lparr>request_id = ''r1'', status_code = 200, code = [],
                                message = [], output_content = ''Hello'', usage = []\<rparr>),
        call_stream = (\<lambda>k. [])\<rparr>
       (MsgList [PyStr ''role and content''] :: string py_messages) None [] []
     = (Inr (TextResponse ''Hello''
               \<lparr>request_id = ''r1'', status_code = 200, code = [], message = [],
                output_content = ''Hello'', usage = []\<rparr>),
        [Request [(''model'', KStr ''qwen-max''),
                  (''messages'', KMessages [PyStr ''role and content'']),
                  (''result_format'', KStr ''message''),
                  (''stream'', KBool False)],
         UpdateMonitor [(''call_counter'', 1), (''prompt_tokens'', 0),
                        (''completion_tokens'', 0), (''total_tokens'', 0)],
         SaveInvocation [(''model'', KStr ''qwen-max''),
                         (''messages'', KMessages [PyStr ''role and content'']),
                         (''result_format'', KStr ''message''),
                         (''stream'', KBool False)]
           \<lparr>request_id = ''r1'', status_code = 200, code = [], message = [],
            output_content = ''Hello'', usage = []\<rparr>])
   \<and> fst (zhipuai_chat_call
            \<lparr>z_model_name = ''glm-4'', z_generate_args = []\<rparr>
            (\<lambda>k. \<lparr>choices = [''Hello''],
                  completion_usage = \<lparr>prompt_tokens = 1, completion_tokens = 1,
                                      total_tokens = 2\<rparr>\<rparr>)
            (MsgList [PyStr ''role and content''] :: string py_messages) [] [])
     = Inr (''Hello'',
            \<lparr>choices = [''Hello''],
             completion_usage = \<lparr>prompt_tokens = 1, completion_tokens = 1,
                                 total_tokens = 2\<rparr>\<rparr>)"
  by (simp add: malformed_def dashscope_chat_call_def zhipuai_chat_call_def request_kwargs_def
      HTTP_OK_def save_model_invocation_and_update_monitor_def dict_get_def
      repeated_keyword_def Let_def)

section \<open>Properties of the blocking call and of the embedding wrappers\<close>

lemma call_error_msg_contains:
  "sublist (request_id r) (call_error_msg r)"
  "sublist (show_int (status_code r)) (call_error_msg r)"
  "sublist (code r) (call_error_msg r)"
  "sublist (message r) (call_error_msg r)"
  unfolding call_error_msg_def sublist_def by (metis append.assoc)+

lemma dashscope_blocking_error:
  assumes "all_have_role_and_content msgs = Inr True"
    and "(case stream of None \<Rightarrow> stream_default self | Some b \<Rightarrow> b) = False"
    and "call_blocking api (request_kwargs self msgs False
           (dict_update (generate_args self) kwargs)) = r"
    and "status_code r \<noteq> HTTP_OK"
  shows "dashscope_chat_call self api (MsgList msgs) stream kwargs trace
         = (Inl (RuntimeError (call_error_msg r)),
            trace @ [Request (request_kwargs self msgs False
                                (dict_update (generate_args self) kwargs))])"
  using assms by (simp add: dashscope_chat_call_def Let_def)

text \<open>
  C7. A non-streaming DashScope chat call whose response has a status other than
  \<open>HTTPStatus.OK\<close> raises \<open>RuntimeError\<close>; the message holds the request id, the status
  code, the error code and the error message of the response; and the only event of the call
  is the request: no \<open>update_monitor\<close>, no \<open>_save_model_invocation\<close>.
\<close>

theorem blocking_call_non_success:
  assumes "all_have_role_and_content msgs = Inr True"
    and "(case stream of None \<Rightarrow> stream_default self | Some b \<Rightarrow> b) = False"
    and "call_blocking api (request_kwargs self msgs False
           (dict_update (generate_args self) kwargs)) = r"
    and "status_code r \<noteq> HTTP_OK"
  shows "dashscope_chat_call self api (MsgList msgs) stream kwargs trace
         = (Inl (RuntimeError (call_error_msg r)),
            trace @ [Request (request_kwargs self msgs False
                                (dict_update (generate_args self) kwargs))])
       \<and> sublist (request_id r) (call_error_msg r)
       \<and> sublist (show_int (status_code r)) (call_error_msg r)
       \<and> sublist (code r) (call_error_msg r)
       \<and> sublist (message r) (call_error_msg r)
       \<and> updates (snd (dashscope_chat_call self api (MsgList msgs) stream kwargs trace))
           = updates trace"
  using dashscope_blocking_error [OF assms, of trace] call_error_msg_contains [of r]
  by (simp add: updates_def)

theorem blocking_call_non_success_witness:
  "dashscope_chat_call
     \<lparr>model_name = ''qwen-max'', generate_args = [], stream_default = False\<rparr>
     \<lparr>call_blocking = (\<lambda>k. \<lparr>request_id = ''r-7'', status_code = 500,
                              code = ''InternalError'', message = ''try later'',
                              output_content = [], usage = []\<rparr>),
      call_stream = (\<lambda>k. [])\<rparr>
     (MsgList [PyDict [(''role'', ''user''), (''content'', ''Hi'')]] :: string py_messages)
     None [] []
   = (Inl (RuntimeError
             (''Request id: r-7,'' @ [CHR 0x0A] @ ''Status code: 500,'' @ [CHR 0x0A]
              @ ''Error code: InternalError,'' @ [CHR 0x0A]
              @ ''Error message: try later.'')),
      [Request [(''model'', KStr ''qwen-max''),
                (''messages'', KMessages [PyDict [(''role'', ''user''), (''content'', ''Hi'')]]),
                (''result_format'', KStr ''message''),
                (''stream'', KBool False)]])"
  using blocking_call_non_success
    [where msgs = "[PyDict [(''role'', ''user''), (''content'', ''Hi'')]] :: string py_object list"
       and stream = None
       and self = "\<lparr>model_name = ''qwen-max'', generate_args = [], stream_default = False\<rparr>"
       and api = "\<lparr>call_blocking = (\<lambda>k. \<lparr>request_id = ''r-7'', status_code = 500,
                                 code = ''InternalError'', message = ''try later'',
                                 output_content = [], usage = []\<rparr>),
          call_stream = (\<lambda>k. [])\<rparr>"
       and kwargs = "[]"
       and r = "\<lparr>request_id = ''r-7'', status_code = 500,
          code = ''InternalError'', message = ''try later'',
          output_content = [], usage = []\<rparr>"
       and trace = "[]"]
  by (simp add: has_key_def HTTP_OK_def call_error_msg_def
      request_kwargs_def show_int_def show_nat.simps)

lemma drain_empty_start:
  "pc g = Start \<Longrightarrow> pending g = [] \<Longrightarrow>
   drain g trace = ([], Some (AttributeError none_has_no_output),
                    g\<lparr>pc := Done, last_chunk := None, gen_text := ''''\<rparr>, trace)"
  by (simp add: drain.simps gen_next_def gen_loop_def)

text \<open>
  C10. When the provider's stream of a streaming chat call delivers no chunk, iterating
  over the returned generator yields nothing and ends with the \<open>AttributeError\<close> of
  \<open>None.output\<close>, and the events are left as they were: the usage update is not made.
\<close>

theorem empty_stream_drain:
  assumes "all_have_role_and_content msgs = Inr True"
    and "(case stream of None \<Rightarrow> stream_default self | Some b \<Rightarrow> b) = True"
    and "call_stream api (request_kwargs self msgs True
           (dict_update (generate_args self) kwargs)) = []"
  shows "\<exists>g raw. dashscope_chat_call self api (MsgList msgs) stream kwargs trace
                   = (Inr (StreamResponse g raw),
                      trace @ [Request (request_kwargs self msgs True
                                          (dict_update (generate_args self) kwargs))])
               \<and> (\<forall>trace'. \<exists>g'. drain g trace'
                     = ([], Some (AttributeError none_has_no_output), g', trace'))"
  using assms by (simp add: dashscope_chat_call_def Let_def drain_empty_start)

theorem empty_stream_drain_witness:
  "\<exists>g raw. dashscope_chat_call
              \<lparr>model_name = ''qwen-max'', generate_args = [], stream_default = True\<rparr>
              \<lparr>call_blocking = (\<lambda>k. \<lparr>request_id = ''r-7'', status_code = 200,
                                       code = [], message = [],
                                       output_content = [], usage = []\<rparr>),
               call_stream = (\<lambda>k. [])\<rparr>
              (MsgList [PyDict [(''role'', ''user''), (''content'', ''Hi'')]] :: string py_messages)
              None [] []
            = (Inr (StreamResponse g raw),
               [Request [(''model'', KStr ''qwen-max''),
                         (''messages'', KMessages [PyDict [(''role'', ''user''), (''content'', ''Hi'')]]),
                         (''result_format'', KStr ''message''),
                         (''stream'', KBool True),
                         (''incremental_output'', KBool True)]])
          \<and> (\<forall>trace'. \<exists>g'. drain g trace'
                = ([], Some (AttributeError none_has_no_output), g', trace'))"
  using empty_stream_drain
    [where msgs = "[PyDict [(''role'', ''user''), (''content'', ''Hi'')]] :: string py_object list"
       and stream = None
       and self = "\<lparr>model_name = ''qwen-max'', generate_args = [], stream_default = True\<rparr>"
       and api = "\<lparr>call_blocking = (\<lambda>k. \<lparr>request_id = ''r-7'', status_code = 200,
                                 code = [], message = [],
                                 output_content = [], usage = []\<rparr>),
          call_stream = (\<lambda>k. [])\<rparr>"
       and kwargs = "[]" and trace = "[]"]
  by (simp add: has_key_def request_kwargs_def)

lemma zhipuai_embedding_nonempty:
  "data (create [(''input'', KStr texts), (''model'', KStr (z_model_name self))]) \<noteq> [] \<Longrightarrow>
   fst (zhipuai_embedding_call self create texts kwargs trace)
     = Inr (map embedding
              (data (create [(''input'', KStr texts), (''model'', KStr (z_model_name self))])),
            create [(''input'', KStr texts), (''model'', KStr (z_model_name self))])"
  by (simp add: zhipuai_embedding_call_def Let_def)

lemma dashscope_embedding_success:
  assumes "dashscope_embedding_call self call texts kwargs trace = (Inr (emb, raw), trace')"
  shows "e_status_code raw = HTTP_OK \<and> emb = map embedding (output_embeddings raw)"
  using assms
  by (auto simp: dashscope_embedding_call_def Let_def split: if_splits option.splits)

text \<open>
  C8. The ZhipuAI embedding wrapper on a response whose \<open>data\<close> is the empty list: the
  branch for \<open>len(response_json["data"]) == 0\<close> indexes that list by the string
  \<open>embedding\<close>, so the call raises \<open>TypeError\<close> where the list of the embeddings of the
  response, here the empty list, was to be returned.
\<close>

theorem zhipuai_embedding_empty_data:
  "fst (zhipuai_embedding_call self (\<lambda>request. response\<lparr>data := []\<rparr>) texts kwargs trace)
     = Inl list_indices_error"
  by (simp add: zhipuai_embedding_call_def Let_def)

section \<open>Properties of the streaming generator\<close>

lemma gen_next_resumed:
  "pc g \<noteq> Done \<Longrightarrow> gen_next g trace = gen_loop (resumed g) trace"
  by (cases "pc g") (simp_all add: gen_next_def resumed_def)

lemma resumed_pending: "pending (resumed g) = pending g"
  by (cases "pc g") (simp_all add: resumed_def)

lemma resumed_kwargs: "gen_kwargs (resumed g) = gen_kwargs g"
  by (cases "pc g") (simp_all add: resumed_def)

lemma resumed_AtYield: "pc g = AtYield c \<Longrightarrow> resumed g = g\<lparr>last_chunk := Some c\<rparr>"
  by (simp add: resumed_def)

lemma resumed_Start:
  "pc g = Start \<Longrightarrow> resumed g = g\<lparr>last_chunk := None, gen_text := []\<rparr>"
  by (simp add: resumed_def)

lemma gen_loop_Cons_ok:
  "pending g = c # rest \<Longrightarrow> status_code c = HTTP_OK \<Longrightarrow>
   gen_loop g trace
     = (Yield (gen_text g @ output_content c),
        g\<lparr>pc := AtYield c, pending := rest, gen_text := gen_text g @ output_content c\<rparr>,
        trace)"
  by (simp add: gen_loop_def Let_def)

lemma gen_loop_Cons_bad:
  "pending g = c # rest \<Longrightarrow> status_code c \<noteq> HTTP_OK \<Longrightarrow>
   gen_loop g trace
     = (Raise (RuntimeError (stream_error_msg c)), g\<lparr>pc := Done, pending := rest\<rparr>, trace)"
  by (simp add: gen_loop_def)

lemma gen_loop_Nil_Some:
  "pending g = [] \<Longrightarrow> last_chunk g = Some lc \<Longrightarrow>
   gen_loop g trace
     = (StopIteration,
        g\<lparr>pc := Done, last_chunk := Some (lc\<lparr>output_content := gen_text g\<rparr>)\<rparr>,
        save_model_invocation_and_update_monitor (gen_kwargs g)
          (lc\<lparr>output_content := gen_text g\<rparr>) trace)"
  by (simp add: gen_loop_def Let_def)

lemma gen_loop_Nil_None:
  "pending g = [] \<Longrightarrow> last_chunk g = None \<Longrightarrow>
   gen_loop g trace = (Raise (AttributeError none_has_no_output), g\<lparr>pc := Done\<rparr>, trace)"
  by (simp add: gen_loop_def)

lemma drain_yield:
  "gen_next g trace = (Yield t, g', trace') \<Longrightarrow> drain g' trace' = (ts, e, g'', trace'') \<Longrightarrow>
   drain g trace = (t # ts, e, g'', trace'')"
  by (subst drain.simps) simp

lemma drain_stop:
  "gen_next g trace = (StopIteration, g', trace') \<Longrightarrow> drain g trace = ([], None, g', trace')"
  by (subst drain.simps) simp

lemma drain_raise:
  "gen_next g trace = (Raise e, g', trace') \<Longrightarrow> drain g trace = ([], Some e, g', trace')"
  by (subst drain.simps) simp

lemma drain_all_ok:
  assumes "pending g = cs" and "pc g \<noteq> Done"
    and "\<forall>c\<in>set cs. status_code c = HTTP_OK"
    and "last_chunk (resumed g) = lc" and "gen_text (resumed g) = t"
    and "(case lc of None \<Rightarrow> [] | Some c \<Rightarrow> [c]) @ cs \<noteq> []"
  shows "\<exists>g'. drain g trace
           = (snapshots t cs, None, g',
              save_model_invocation_and_update_monitor (gen_kwargs g)
                ((last ((case lc of None \<Rightarrow> [] | Some c \<Rightarrow> [c]) @ cs))
                   \<lparr>output_content := t @ concat (map output_content cs)\<rparr>) trace)
         \<and> last_chunk g'
             = Some ((last ((case lc of None \<Rightarrow> [] | Some c \<Rightarrow> [c]) @ cs))
                       \<lparr>output_content := t @ concat (map output_content cs)\<rparr>)"
  using assms
proof (induction cs arbitrary: g lc t)
  case Nil
  then obtain c where lc: "lc = Some c" by (cases lc) auto
  have "gen_next g trace
          = (StopIteration,
             (resumed g)\<lparr>pc := Done, last_chunk := Some (c\<lparr>output_content := t\<rparr>)\<rparr>,
             save_model_invocation_and_update_monitor (gen_kwargs g)
               (c\<lparr>output_content := t\<rparr>) trace)"
    using Nil.prems lc gen_loop_Nil_Some [of "resumed g" c trace]
    by (simp add: gen_next_resumed resumed_pending resumed_kwargs)
  from drain_stop [OF this] lc show ?case by simp
next
  case (Cons c rest)
  let ?t' = "t @ output_content c"
  let ?g' = "(resumed g)\<lparr>pc := AtYield c, pending := rest, gen_text := ?t'\<rparr>"
  have step: "gen_next g trace = (Yield ?t', ?g', trace)"
    using Cons.prems gen_loop_Cons_ok [of "resumed g" c rest trace]
    by (simp add: gen_next_resumed resumed_pending)
  have r': "resumed ?g' = ?g'\<lparr>last_chunk := Some c\<rparr>"
    by (simp add: resumed_AtYield)
  have "\<exists>g''. drain ?g' trace
           = (snapshots ?t' rest, None, g'',
              save_model_invocation_and_update_monitor (gen_kwargs ?g')
                ((last ((case Some c of None \<Rightarrow> [] | Some c \<Rightarrow> [c]) @ rest))
                   \<lparr>output_content := ?t' @ concat (map output_content rest)\<rparr>) trace)
         \<and> last_chunk g''
             = Some ((last ((case Some c of None \<Rightarrow> [] | Some c \<Rightarrow> [c]) @ rest))
                       \<lparr>output_content := ?t' @ concat (map output_content rest)\<rparr>)"
  proof (rule Cons.IH)
    show "pending ?g' = rest" by simp
    show "pc ?g' \<noteq> Done" by simp
    show "\<forall>c\<in>set rest. status_code c = HTTP_OK" using Cons.prems by simp
    show "last_chunk (resumed ?g') = Some c" by (simp add: r')
    show "gen_text (resumed ?g') = ?t'" by (simp add: r')
    show "(case Some c of None \<Rightarrow> [] | Some c \<Rightarrow> [c]) @ rest \<noteq> []" by simp
  qed
  then obtain g'' where
    d: "drain ?g' trace
          = (snapshots ?t' rest, None, g'',
             save_model_invocation_and_update_monitor (gen_kwargs ?g')
               ((last (c # rest))\<lparr>output_content := ?t' @ concat (map output_content rest)\<rparr>)
               trace)"
    and l: "last_chunk g''
          = Some ((last (c # rest))\<lparr>output_content := ?t' @ concat (map output_content rest)\<rparr>)"
    by auto
  have k: "gen_kwargs ?g' = gen_kwargs g" by (simp add: resumed_kwargs)
  have la: "last ((case lc of None \<Rightarrow> [] | Some c \<Rightarrow> [c]) @ c # rest) = last (c # rest)"
    by simp
  show ?case
    using drain_yield [OF step d] l unfolding k la by simp
qed

lemma drain_not_ok:
  assumes "pending g = cs" and "pc g \<noteq> Done"
    and "\<exists>c\<in>set cs. status_code c \<noteq> HTTP_OK"
  shows "fst (snd (drain g trace)) \<noteq> None"
  using assms
proof (induction cs arbitrary: g)
  case Nil
  then show ?case by simp
next
  case (Cons c rest)
  show ?case
  proof (cases "status_code c = HTTP_OK")
    case False
    have "gen_next g trace
            = (Raise (RuntimeError (stream_error_msg c)),
               (resumed g)\<lparr>pc := Done, pending := rest\<rparr>, trace)"
      using Cons.prems False gen_loop_Cons_bad [of "resumed g" c rest trace]
      by (simp add: gen_next_resumed resumed_pending)
    from drain_raise [OF this] show ?thesis by simp
  next
    case True
    let ?t' = "gen_text (resumed g) @ output_content c"
    let ?g' = "(resumed g)\<lparr>pc := AtYield c, pending := rest, gen_text := ?t'\<rparr>"
    have step: "gen_next g trace = (Yield ?t', ?g', trace)"
      using Cons.prems True gen_loop_Cons_ok [of "resumed g" c rest trace]
      by (simp add: gen_next_resumed resumed_pending)
    have ih: "fst (snd (drain ?g' trace)) \<noteq> None"
    proof (rule Cons.IH)
      show "pending ?g' = rest" by simp
      show "pc ?g' \<noteq> Done" by simp
      show "\<exists>c\<in>set rest. status_code c \<noteq> HTTP_OK" using Cons.prems True by auto
    qed
    obtain ts e g'' tr'' where d: "drain ?g' trace = (ts, e, g'', tr'')"
      by (cases "drain ?g' trace") auto
    from drain_yield [OF step d] ih d show ?thesis by simp
  qed
qed

lemma take_next_all_ok:
  assumes "pending g = cs" and "pc g \<noteq> Done"
    and "\<forall>c\<in>set cs. status_code c = HTTP_OK"
    and "gen_text (resumed g) = t" and "k \<le> length cs"
  shows "fst (take_next k g trace) = map Yield (take k (snapshots t cs))
       \<and> snd (snd (take_next k g trace)) = trace"
  using assms
proof (induction k arbitrary: g cs t)
  case 0
  then show ?case by simp
next
  case (Suc k)
  then obtain c rest where cs: "cs = c # rest" by (cases cs) auto
  let ?t' = "t @ output_content c"
  let ?g' = "(resumed g)\<lparr>pc := AtYield c, pending := rest, gen_text := ?t'\<rparr>"
  have step: "gen_next g trace = (Yield ?t', ?g', trace)"
    using Suc.prems cs gen_loop_Cons_ok [of "resumed g" c rest trace]
    by (simp add: gen_next_resumed resumed_pending)
  have r': "resumed ?g' = ?g'\<lparr>last_chunk := Some c\<rparr>"
    by (simp add: resumed_AtYield)
  have ih: "fst (take_next k ?g' trace) = map Yield (take k (snapshots ?t' rest))
       \<and> snd (snd (take_next k ?g' trace)) = trace"
  proof (rule Suc.IH)
    show "pending ?g' = rest" by simp
    show "pc ?g' \<noteq> Done" by simp
    show "\<forall>c\<in>set rest. status_code c = HTTP_OK" using Suc.prems cs by simp
    show "gen_text (resumed ?g') = ?t'" by (simp add: r')
    show "k \<le> length rest" using Suc.prems cs by simp
  qed
  obtain rs g'' tr'' where d: "take_next k ?g' trace = (rs, g'', tr'')"
    by (cases "take_next k ?g' trace") auto
  show ?case using ih d cs by (simp add: step)
qed

lemma length_snapshots: "length (snapshots t cs) = length cs"
  by (induction cs arbitrary: t) simp_all

lemma snapshots_nth:
  "i < length cs \<Longrightarrow>
   snapshots t cs ! i = t @ concat (map output_content (take (Suc i) cs))"
proof (induction cs arbitrary: t i)
  case Nil
  then show ?case by simp
next
  case (Cons c rest)
  then show ?case by (cases i) simp_all
qed

lemma drain_start_exhausted:
  assumes "pc g = Start" and "pending g = chunks"
    and "drain g trace = (ts, None, g', trace')"
  shows "chunks \<noteq> [] \<and> (\<forall>c\<in>set chunks. status_code c = HTTP_OK)
       \<and> ts = snapshots [] chunks
       \<and> last_chunk g'
           = Some ((last chunks)\<lparr>output_content := concat (map output_content chunks)\<rparr>)
       \<and> trace' = save_model_invocation_and_update_monitor (gen_kwargs g)
                     ((last chunks)\<lparr>output_content := concat (map output_content chunks)\<rparr>)
                     trace"
proof -
  have ne: "chunks \<noteq> []"
    using assms drain_empty_start [of g trace] by auto
  have ok: "\<forall>c\<in>set chunks. status_code c = HTTP_OK"
    using assms drain_not_ok [of g chunks trace] by auto
  have "\<exists>g'. drain g trace
           = (snapshots [] chunks, None, g',
              save_model_invocation_and_update_monitor (gen_kwargs g)
                ((last ((case None of None \<Rightarrow> [] | Some c \<Rightarrow> [c]) @ chunks))
                   \<lparr>output_content := [] @ concat (map output_content chunks)\<rparr>) trace)
         \<and> last_chunk g'
             = Some ((last ((case None of None \<Rightarrow> [] | Some c \<Rightarrow> [c]) @ chunks))
                       \<lparr>output_content := [] @ concat (map output_content chunks)\<rparr>)"
  proof (rule drain_all_ok)
    show "pending g = chunks" by fact
    show "pc g \<noteq> Done" using assms by simp
    show "\<forall>c\<in>set chunks. status_code c = HTTP_OK" by fact
    show "last_chunk (resumed g) = None" using assms by (simp add: resumed_Start)
    show "gen_text (resumed g) = []" using assms by (simp add: resumed_Start)
    show "(case None of None \<Rightarrow> [] | Some c \<Rightarrow> [c]) @ chunks \<noteq> []" using ne by simp
  qed
  with assms ne ok show ?thesis by auto
qed

lemma snapshots_Nil_iff: "snapshots t cs = [] \<longleftrightarrow> cs = []"
  by (cases cs) simp_all

lemma last_snapshots:
  "cs \<noteq> [] \<Longrightarrow> last (snapshots t cs) = t @ concat (map output_content cs)"
proof (induction cs arbitrary: t)
  case Nil
  then show ?case by simp
next
  case (Cons c rest)
  show ?case
  proof (cases "rest = []")
    case True
    then show ?thesis by simp
  next
    case False
    from Cons.IH [OF False, of "t @ output_content c"] False
    show ?thesis by (simp add: snapshots_Nil_iff)
  qed
qed

lemma updates_save:
  "updates (save_model_invocation_and_update_monitor kw r trace) = Suc (updates trace)"
  by (simp add: updates_def save_model_invocation_and_update_monitor_def Let_def)

text \<open>
  C2. A streaming DashScope chat call whose generator is iterated to its end without an
  exception.  The provider delivered at least one chunk; the consumer received one text per
  chunk, the \<open>i\<close>-th being the contents of the first \<open>i\<close> chunks put together, so the
  last is the whole text; the generator's last chunk carries the whole text as its content;
  \<open>_save_model_invocation_and_update_monitor\<close> ran once, with that chunk, so the events
  after the iteration are those of the call, one \<open>update_monitor\<close> and one
  \<open>_save_model_invocation\<close>; and up to the \<open>next\<close> that delivers the last text the
  events are still those of the call.
\<close>

theorem stream_consumed_to_exhaustion:
  assumes "all_have_role_and_content msgs = Inr True"
    and "(case stream of None \<Rightarrow> stream_default self | Some b \<Rightarrow> b) = True"
    and "request_kwargs self msgs True (dict_update (generate_args self) kwargs) = kw"
    and "call_stream api kw = chunks"
    and "dashscope_chat_call self api (MsgList msgs) stream kwargs trace
           = (Inr (StreamResponse g raw), trace0)"
    and "drain g trace0 = (ts, None, g', trace')"
  shows "chunks \<noteq> []
       \<and> length ts = length chunks
       \<and> (\<forall>i<length chunks.
             ts ! i = concat (map output_content (take (Suc i) chunks)))
       \<and> last ts = concat (map output_content chunks)
       \<and> last_chunk g'
           = Some ((last chunks)\<lparr>output_content := concat (map output_content chunks)\<rparr>)
       \<and> trace0 = trace @ [Request kw]
       \<and> trace' = save_model_invocation_and_update_monitor kw
                     ((last chunks)\<lparr>output_content := concat (map output_content chunks)\<rparr>)
                     trace0
       \<and> updates trace' = Suc (updates trace0)
       \<and> (\<forall>k\<le>length chunks.
             fst (take_next k g trace0) = map Yield (take k ts)
             \<and> snd (snd (take_next k g trace0)) = trace0)"
proof -
  have g: "g = \<lparr>pc = Start, pending = chunks, last_chunk = None, gen_text = [],
                gen_kwargs = kw\<rparr>"
    and t0: "trace0 = trace @ [Request kw]"
    using assms(1-5) by (auto simp: dashscope_chat_call_def Let_def)
  have st: "pc g = Start" and pe: "pending g = chunks" and kw: "gen_kwargs g = kw"
    by (simp_all add: g)
  note ex = drain_start_exhausted [OF st pe assms(6)]
  have ts: "ts = snapshots [] chunks" and ne: "chunks \<noteq> []"
    and ok: "\<forall>c\<in>set chunks. status_code c = HTTP_OK"
    using ex by simp_all
  have tk: "\<forall>k\<le>length chunks.
             fst (take_next k g trace0) = map Yield (take k ts)
             \<and> snd (snd (take_next k g trace0)) = trace0"
  proof (intro allI impI)
    fix k assume k: "k \<le> length chunks"
    show "fst (take_next k g trace0) = map Yield (take k ts)
             \<and> snd (snd (take_next k g trace0)) = trace0"
      unfolding ts
    proof (rule take_next_all_ok)
      show "pending g = chunks" by fact
      show "pc g \<noteq> Done" using st by simp
      show "\<forall>c\<in>set chunks. status_code c = HTTP_OK" by fact
      show "gen_text (resumed g) = []" using st by (simp add: resumed_Start)
      show "k \<le> length chunks" by fact
    qed
  qed
  have nth: "\<forall>i<length chunks.
             ts ! i = concat (map output_content (take (Suc i) chunks))"
    unfolding ts by (simp add: snapshots_nth)
  have la: "last ts = concat (map output_content chunks)"
    unfolding ts using ne by (simp add: last_snapshots)
  have tr: "trace' = save_model_invocation_and_update_monitor kw
                     ((last chunks)\<lparr>output_content := concat (map output_content chunks)\<rparr>)
                     trace0"
    using ex kw by simp
  have up: "updates trace' = Suc (updates trace0)"
    unfolding tr by (rule updates_save)
  have lc: "last_chunk g'
           = Some ((last chunks)\<lparr>output_content := concat (map output_content chunks)\<rparr>)"
    using ex by simp
  have len: "length ts = length chunks"
    unfolding ts by (rule length_snapshots)
  from ne len nth la lc t0 tr up tk show ?thesis by blast
qed

theorem stream_consumed_to_exhaustion_witness:
  "drain \<lparr>pc = Start,
          pending = [\<lparr>request_id = ''r1'', status_code = 200, code = [], message = [],
                      output_content = ''Hel'', usage = []\<rparr>,
                     \<lparr>request_id = ''r1'', status_code = 200, code = [], message = [],
                      output_content = ''lo'',
                      usage = [(''input_tokens'', 3), (''output_tokens'', 2)]\<rparr>],
          last_chunk = None, gen_text = [],
          gen_kwargs = [(''model'', KStr ''qwen-max''),
                        (''messages'', KMessages [PyDict [(''role'', ''user''), (''content'', ''Hi'')]]),
                        (''result_format'', KStr ''message''),
                        (''stream'', KBool True),
                        (''incremental_output'', KBool True)]\<rparr>
     [Request [(''model'', KStr ''qwen-max''),
               (''messages'', KMessages [PyDict [(''role'', ''user''), (''content'', ''Hi'')]]),
               (''result_format'', KStr ''message''),
               (''stream'', KBool True),
               (''incremental_output'', KBool True)]]
   = ([''Hel'', ''Hello''], None,
      \<lparr>pc = Done, pending = [],
       last_chunk = Some \<lparr>request_id = ''r1'', status_code = 200, code = [], message = [],
                          output_content = ''Hello'',
                          usage = [(''input_tokens'', 3), (''output_tokens'', 2)]\<rparr>,
       gen_text = ''Hello'',
       gen_kwargs = [(''model'', KStr ''qwen-max''),
                     (''messages'', KMessages [PyDict [(''role'', ''user''), (''content'', ''Hi'')]]),
                     (''result_format'', KStr ''message''),
                     (''stream'', KBool True),
                     (''incremental_output'', KBool True)]\<rparr>,
      [Request [(''model'', KStr ''qwen-max''),
                (''messages'', KMessages [PyDict [(''role'', ''user''), (''content'', ''Hi'')]]),
                (''result_format'', KStr ''message''),
                (''stream'', KBool True),
                (''incremental_output'', KBool True)],
       UpdateMonitor [(''call_counter'', 1), (''prompt_tokens'', 3),
                      (''completion_tokens'', 2), (''total_tokens'', 5)],
       SaveInvocation [(''model'', KStr ''qwen-max''),
                       (''messages'', KMessages [PyDict [(''role'', ''user''), (''content'', ''Hi'')]]),
                       (''result_format'', KStr ''message''),
                       (''stream'', KBool True),
                       (''incremental_output'', KBool True)]
         \<lparr>request_id = ''r1'', status_code = 200, code = [], message = [],
          output_content = ''Hello'',
          usage = [(''input_tokens'', 3), (''output_tokens'', 2)]\<rparr>])
   \<and> updates
       [Request [(''model'', KStr ''qwen-max''),
                (''messages'', KMessages [PyDict [(''role'', ''user''), (''content'', ''Hi'')]]),
                (''result_format'', KStr ''message''),
                (''stream'', KBool True),
                (''incremental_output'', KBool True)],
       UpdateMonitor [(''call_counter'', 1), (''prompt_tokens'', 3),
                      (''completion_tokens'', 2), (''total_tokens'', 5)],
       SaveInvocation [(''model'', KStr ''qwen-max''),
                       (''messages'', KMessages [PyDict [(''role'', ''user''), (''content'', ''Hi'')]]),
                       (''result_format'', KStr ''message''),
                       (''stream'', KBool True),
                       (''incremental_output'', KBool True)]
         \<lparr>request_id = ''r1'', status_code = 200, code = [], message = [],
          output_content = ''Hello'',
          usage = [(''input_tokens'', 3), (''output_tokens'', 2)]\<rparr>] = Suc 0"
  using stream_consumed_to_exhaustion
    [where msgs = "[PyDict [(''role'', ''user''), (''content'', ''Hi'')]] :: string py_object list"
       and stream = "Some True"
       and self = "\<lparr>model_name = ''qwen-max'', generate_args = [], stream_default = False\<rparr>"
       and api = "\<lparr>call_blocking = (\<lambda>k. \<lparr>request_id = ''r1'', status_code = 200, code = [],
                                           message = [], output_content = ''Hello'',
                                           usage = []\<rparr>),
                     call_stream = (\<lambda>k. [\<lparr>request_id = ''r1'', status_code = 200, code = [],
                                            message = [], output_content = ''Hel'', usage = []\<rparr>,
                                           \<lparr>request_id = ''r1'', status_code = 200, code = [],
                                            message = [], output_content = ''lo'',
                                            usage = [(''input_tokens'', 3),
                                                     (''output_tokens'', 2)]\<rparr>])\<rparr>"
       and kwargs = "[]" and trace = "[]"
       and kw = "[(''model'', KStr ''qwen-max''),
                  (''messages'', KMessages [PyDict [(''role'', ''user''), (''content'', ''Hi'')]]),
                  (''result_format'', KStr ''message''),
                  (''stream'', KBool True),
                  (''incremental_output'', KBool True)]"
       and chunks = "[\<lparr>request_id = ''r1'', status_code = 200, code = [], message = [],
                       output_content = ''Hel'', usage = []\<rparr>,
                      \<lparr>request_id = ''r1'', status_code = 200, code = [], message = [],
                       output_content = ''lo'',
                       usage = [(''input_tokens'', 3), (''output_tokens'', 2)]\<rparr>]"
       and g = "\<lparr>pc = Start,
          pending = [\<lparr>request_id = ''r1'', status_code = 200, code = [], message = [],
                      output_content = ''Hel'', usage = []\<rparr>,
                     \<lparr>request_id = ''r1'', status_code = 200, code = [], message = [],
                      output_content = ''lo'',
                      usage = [(''input_tokens'', 3), (''output_tokens'', 2)]\<rparr>],
          last_chunk = None, gen_text = [],
          gen_kwargs = [(''model'', KStr ''qwen-max''),
                        (''messages'', KMessages [PyDict [(''role'', ''user''), (''content'', ''Hi'')]]),
                        (''result_format'', KStr ''message''),
                        (''stream'', KBool True),
                        (''incremental_output'', KBool True)]\<rparr>"
       and raw = "[\<lparr>request_id = ''r1'', status_code = 200, code = [], message = [],
                       output_content = ''Hel'', usage = []\<rparr>,
                      \<lparr>request_id = ''r1'', status_code = 200, code = [], message = [],
                       output_content = ''lo'',
                       usage = [(''input_tokens'', 3), (''output_tokens'', 2)]\<rparr>]"
       and ?trace0.0 = "[Request [(''model'', KStr ''qwen-max''),
               (''messages'', KMessages [PyDict [(''role'', ''user''), (''content'', ''Hi'')]]),
               (''result_format'', KStr ''message''),
               (''stream'', KBool True),
               (''incremental_output'', KBool True)]]"
       and ts = "[''Hel'', ''Hello'']"
       and g' = "\<lparr>pc = Done, pending = [],
       last_chunk = Some \<lparr>request_id = ''r1'', status_code = 200, code = [], message = [],
                          output_content = ''Hello'',
                          usage = [(''input_tokens'', 3), (''output_tokens'', 2)]\<rparr>,
       gen_text = ''Hello'',
       gen_kwargs = [(''model'', KStr ''qwen-max''),
                     (''messages'', KMessages [PyDict [(''role'', ''user''), (''content'', ''Hi'')]]),
                     (''result_format'', KStr ''message''),
                     (''stream'', KBool True),
                     (''incremental_output'', KBool True)]\<rparr>"
       and trace' = "[Request [(''model'', KStr ''qwen-max''),
                (''messages'', KMessages [PyDict [(''role'', ''user''), (''content'', ''Hi'')]]),
                (''result_format'', KStr ''message''),
                (''stream'', KBool True),
                (''incremental_output'', KBool True)],
       UpdateMonitor [(''call_counter'', 1), (''prompt_tokens'', 3),
                      (''completion_tokens'', 2), (''total_tokens'', 5)],
       SaveInvocation [(''model'', KStr ''qwen-max''),
                       (''messages'', KMessages [PyDict [(''role'', ''user''), (''content'', ''Hi'')]]),
                       (''result_format'', KStr ''message''),
                       (''stream'', KBool True),
                       (''incremental_output'', KBool True)]
         \<lparr>request_id = ''r1'', status_code = 200, code = [], message = [],
          output_content = ''Hello'',
          usage = [(''input_tokens'', 3), (''output_tokens'', 2)]\<rparr>]"]
  by (simp add: has_key_def request_kwargs_def
      dashscope_chat_call_def drain.simps gen_next_def gen_loop_def HTTP_OK_def Let_def
      save_model_invocation_and_update_monitor_def dict_get_def updates_def)


section \<open>Properties of the SQL agent\<close>

lemma try_query_fails:
  assumes "\<forall>k sql. isl (query_sqlite env k sql)"
  shows "\<exists>e w'. try_query env self prompt x w = (Inl e, w')
           \<and> printed w' = printed w \<and> spoken w' = spoken w"
proof (cases "model_text env (length (model_calls w)) prompt")
  case (Inl e)
  then show ?thesis
    by (simp add: try_query_def get_response_from_prompt_def call_model_def)
next
  case (Inr sql)
  let ?w = "w\<lparr>model_calls := model_calls w @ [prompt]\<rparr>"
  from assms obtain e where
    "query_sqlite env (length (queries ?w)) (sql_from_model_text sql) = Inl e"
    by (metis isl_def)
  with Inr show ?thesis
    by (simp add: try_query_def get_response_from_prompt_def call_model_def run_query_def)
qed

lemma attempts_all_fail:
  assumes "\<forall>k sql. isl (query_sqlite env k sql)" and "max_retries self - attempt = n"
    and "attempt \<le> max_retries self"
  shows "\<exists>w'. attempts env self prompt x attempt w = (None, None, w')
           \<and> printed w' = printed w
                @ map (\<lambda>a. retry_notice a (max_retries self)) [attempt..<max_retries self]
           \<and> spoken w' = spoken w"
  using assms(2,3)
proof (induction n arbitrary: attempt w)
  case 0
  then show ?case by (simp add: attempts.simps)
next
  case (Suc n)
  then have lt: "attempt < max_retries self" by simp
  obtain e w1 where t: "try_query env self prompt x w = (Inl e, w1)"
    and p1: "printed w1 = printed w" and s1: "spoken w1 = spoken w"
    using try_query_fails [OF assms(1), of self prompt x w] by blast
  let ?w2 = "print (retry_notice attempt (max_retries self)) w1"
  have "\<exists>w'. attempts env self prompt x (Suc attempt) ?w2 = (None, None, w')
           \<and> printed w' = printed ?w2
                @ map (\<lambda>a. retry_notice a (max_retries self)) [Suc attempt..<max_retries self]
           \<and> spoken w' = spoken ?w2"
    using Suc.prems by (intro Suc.IH) simp_all
  then obtain w' where a: "attempts env self prompt x (Suc attempt) ?w2 = (None, None, w')"
    and p: "printed w' = printed ?w2
                @ map (\<lambda>a. retry_notice a (max_retries self)) [Suc attempt..<max_retries self]"
    and s: "spoken w' = spoken ?w2"
    by blast
  have "attempts env self prompt x attempt w = (None, None, w')"
    using lt t a by (subst attempts.simps) simp
  moreover have "printed w' = printed w
                @ map (\<lambda>a. retry_notice a (max_retries self)) [attempt..<max_retries self]"
    using p p1 lt by (simp add: print_def upt_conv_Cons)
  moreover have "spoken w' = spoken w"
    using s s1 by (simp add: print_def)
  ultimately show ?case by blast
qed

text \<open>
  C1. A request the model judges related to SQL, whose query raises at every attempt.  The
  loop prints one retry notice per attempt, \<open>max_retries\<close> of them, and \<open>reply\<close> prints
  the notice of failure; no message is spoken.  Then \<open>return msg\<close> reads a local that no
  attempt has assigned: the call ends with \<open>UnboundLocalError\<close> where the specification
  has it return without raising.
\<close>

theorem sql_reply_all_attempts_fail:
  assumes "fst (is_question_related env (content x) w) = Inr is_sql_response"
    and "lower is_sql_response = ''yes''"
    and "\<forall>k sql. isl (query_sqlite env k sql)"
  shows "fst (sql_reply env self (Some x) w) = Inl (UnboundLocalError ''msg'')
       \<and> printed (snd (sql_reply env self (Some x) w))
           = printed w
             @ map (\<lambda>a. retry_notice a (max_retries self)) [0..<max_retries self]
             @ [failure_notice (max_retries self)]
       \<and> spoken (snd (sql_reply env self (Some x) w)) = spoken w"
proof -
  obtain w1 where r: "is_question_related env (content x) w = (Inr is_sql_response, w1)"
    using assms(1) by (cases "is_question_related env (content x) w") auto
  then have w1: "printed w1 = printed w" "spoken w1 = spoken w"
    by (auto simp: is_question_related_def call_model_def)
  obtain w' where a: "attempts env self (generate_prompt env x) x 0 w1 = (None, None, w')"
    and p: "printed w' = printed w1
              @ map (\<lambda>a. retry_notice a (max_retries self)) [0..<max_retries self]"
    and s: "spoken w' = spoken w1"
    using attempts_all_fail [OF assms(3), of self 0 "max_retries self" "generate_prompt env x" x w1]
    by auto
  show ?thesis
    using r assms(2) a p s w1 by (simp add: sql_reply_def print_def)
qed

theorem sql_reply_all_attempts_fail_witness:
  "fst (sql_reply
         \<lparr>model_text = (\<lambda>k prompt. Inr ''YES''),
          query_sqlite = (\<lambda>k sql. Inl (Raised ''no such column: YES'')),
          is_sql_question_prompt = (\<lambda>q. q), generate_prompt = content, describe_sql = []\<rparr>
         (sql_agent_init ''sql'' ''concert_singer'' ''./concert_singer.sqlite'')
         (Some \<lparr>name = ''user'', role = ''user'', content = ''How many singers?''\<rparr>)
         \<lparr>model_calls = [], queries = [], printed = [], spoken = []\<rparr>)
     = Inl (UnboundLocalError ''msg'')
   \<and> printed (snd (sql_reply
         \<lparr>model_text = (\<lambda>k prompt. Inr ''YES''),
          query_sqlite = (\<lambda>k sql. Inl (Raised ''no such column: YES'')),
          is_sql_question_prompt = (\<lambda>q. q), generate_prompt = content, describe_sql = []\<rparr>
         (sql_agent_init ''sql'' ''concert_singer'' ''./concert_singer.sqlite'')
         (Some \<lparr>name = ''user'', role = ''user'', content = ''How many singers?''\<rparr>)
         \<lparr>model_calls = [], queries = [], printed = [], spoken = []\<rparr>))
     = [''We fail to execute the generated query.Attempt 1 of 3 failed. Retrying!'',
        ''We fail to execute the generated query.Attempt 2 of 3 failed. Retrying!'',
        ''We fail to execute the generated query.Attempt 3 of 3 failed. Retrying!'',
        ''Sorry, the agent failed to execute query after 3 attempts'']"
  using sql_reply_all_attempts_fail
    [where env = "\<lparr>model_text = (\<lambda>k prompt. Inr ''YES''),
          query_sqlite = (\<lambda>k sql. Inl (Raised ''no such column: YES'')),
          is_sql_question_prompt = (\<lambda>q. q), generate_prompt = content, describe_sql = []\<rparr>"
       and self = "sql_agent_init ''sql'' ''concert_singer'' ''./concert_singer.sqlite''"
       and x = "\<lparr>name = ''user'', role = ''user'', content = ''How many singers?''\<rparr>"
       and w = "\<lparr>model_calls = [], queries = [], printed = [], spoken = []\<rparr>"
       and is_sql_response = "''YES''"]
  by (simp add: is_question_related_def call_model_def lower_def lower_char_def
      sql_agent_init_def retry_notice_def failure_notice_def show_nat.simps upt_conv_Cons
      char_of_def bit_iff_odd)

section \<open>Properties of the CodeAct agent\<close>

lemma loop_body_execute:
  assumes "search_execute (model_response_text env (memory self)) \<noteq> None"
  shows "\<exists>self'. loop_body env excution_count self = (Suc excution_count, self')
           \<and> n_max_executions self' = n_max_executions self
           \<and> memory self' \<noteq> [] \<and> role (last (memory self')) = ''user''
           \<and> length (memory self') = length (memory self) + 2
           \<and> map action_of (events self')
               = map action_of (events self) @ [Model, Say, Run, Say]"
  using assms
  by (auto simp: loop_body_def handle_code_execution_def codeact_speak_def
      handle_code_result_def Let_def split: prod.splits)

lemma reply_loop_ceiling:
  assumes "\<forall>mem. search_execute (model_response_text env mem) \<noteq> None"
    and "n_max_executions self - excution_count = k"
    and "excution_count \<le> n_max_executions self"
    and "memory self \<noteq> []" and "role (last (memory self)) = ''user''"
  shows "\<exists>self'. reply_loop env excution_count self = Inr (n_max_executions self, self')
           \<and> n_max_executions self' = n_max_executions self
           \<and> memory self' \<noteq> [] \<and> role (last (memory self')) = ''user''
           \<and> length (memory self') = length (memory self) + 2 * k
           \<and> map action_of (events self')
               = map action_of (events self) @ concat (replicate k [Model, Say, Run, Say])"
  using assms(2-5)
proof (induction k arbitrary: excution_count self)
  case 0
  then have "excution_count = n_max_executions self" by simp
  with 0 show ?case by (subst reply_loop.simps) simp
next
  case (Suc k)
  then have lt: "excution_count < n_max_executions self" by simp
  from assms(1) have "search_execute (model_response_text env (memory self)) \<noteq> None"
    by simp
  from loop_body_execute [OF this, of excution_count]
  obtain s1 where b: "loop_body env excution_count self = (Suc excution_count, s1)"
    and n1: "n_max_executions s1 = n_max_executions self"
    and m1: "memory s1 \<noteq> []" and r1: "role (last (memory s1)) = ''user''"
    and l1: "length (memory s1) = length (memory self) + 2"
    and e1: "map action_of (events s1) = map action_of (events self) @ [Model, Say, Run, Say]"
    by blast
  have "\<exists>self'. reply_loop env (Suc excution_count) s1 = Inr (n_max_executions s1, self')
           \<and> n_max_executions self' = n_max_executions s1
           \<and> memory self' \<noteq> [] \<and> role (last (memory self')) = ''user''
           \<and> length (memory self') = length (memory s1) + 2 * k
           \<and> map action_of (events self')
               = map action_of (events s1) @ concat (replicate k [Model, Say, Run, Say])"
    using Suc.prems lt n1 m1 r1 by (intro Suc.IH) simp_all
  then obtain s2 where
    a: "reply_loop env (Suc excution_count) s1 = Inr (n_max_executions s1, s2)"
    and n2: "n_max_executions s2 = n_max_executions s1"
    and m2: "memory s2 \<noteq> []" and r2: "role (last (memory s2)) = ''user''"
    and l2: "length (memory s2) = length (memory s1) + 2 * k"
    and e2: "map action_of (events s2)
               = map action_of (events s1) @ concat (replicate k [Model, Say, Run, Say])"
    by blast
  have "reply_loop env excution_count self = Inr (n_max_executions self, s2)"
    using Suc.prems lt b a n1 by (subst reply_loop.simps) simp
  with n1 n2 m2 r2 l1 l2 e1 e2 show ?case by simp
qed

lemma count_rounds:
  "length (filter (\<lambda>a. a = Run) (concat (replicate k [Model, Say, Run, Say]))) = k"
  "length (filter (\<lambda>a. a = Model) (concat (replicate k [Model, Say, Run, Say]))) = k"
  by (induction k) simp_all

text \<open>
  C5, with the condition it needs.  The model's response always holds an
  \<open>[execute]...[/execute]\<close> block, and the last message of the memory, once \<open>x\<close> is
  added, has the role \<open>user\<close>.  Then \<open>reply\<close> returns, and what it did is
  \<open>n_max_executions\<close> rounds of a model call, the response spoken, the code run and its
  result spoken, followed by the closing message spoken: as many executions as
  \<open>n_max_executions\<close>, as many model calls, none of them after the last execution.  The
  memory has grown by two messages a round and ends with the closing message.
\<close>

theorem codeact_reply_execution_ceiling:
  assumes "\<forall>mem. search_execute (model_response_text env mem) \<noteq> None"
    and "memory (memory_add x self) \<noteq> []"
    and "role (last (memory (memory_add x self))) = ''user''"
  shows "\<exists>self'. codeact_reply env self x = Inr self'
           \<and> map action_of (events self')
               = map action_of (events self)
                 @ concat (replicate (n_max_executions self) [Model, Say, Run, Say]) @ [Say]
           \<and> length (filter (\<lambda>a. a = Run) (map action_of (events self')))
               = length (filter (\<lambda>a. a = Run) (map action_of (events self)))
                 + n_max_executions self
           \<and> length (filter (\<lambda>a. a = Model) (map action_of (events self')))
               = length (filter (\<lambda>a. a = Model) (map action_of (events self)))
                 + n_max_executions self
           \<and> last (events self') = Speak (max_executions_msg (n_max_executions self))
           \<and> last (memory self') = max_executions_msg (n_max_executions self)
           \<and> length (memory self')
               = length (memory (memory_add x self)) + 2 * n_max_executions self + 1"
proof -
  let ?s0 = "memory_add x self"
  have n0: "n_max_executions ?s0 = n_max_executions self"
    and e0: "events ?s0 = events self"
    by (cases x; simp)+
  from reply_loop_ceiling [OF assms(1), of ?s0 0 "n_max_executions self"] assms(2,3) n0 e0
  obtain s1 where a: "reply_loop env 0 ?s0 = Inr (n_max_executions self, s1)"
    and n1: "n_max_executions s1 = n_max_executions self"
    and m1: "memory s1 \<noteq> []" and r1: "role (last (memory s1)) = ''user''"
    and l1: "length (memory s1) = length (memory ?s0) + 2 * n_max_executions self"
    and e1: "map action_of (events s1)
               = map action_of (events self)
                 @ concat (replicate (n_max_executions self) [Model, Say, Run, Say])"
    by auto
  let ?m = "max_executions_msg (n_max_executions self)"
  let ?s2 = "codeact_speak ?m (memory_add (Some ?m) s1)"
  have "codeact_reply env self x = Inr ?s2"
    using a n1 m1 r1 by (simp add: codeact_reply_def Let_def)
  moreover have "map action_of (events ?s2)
               = map action_of (events self)
                 @ concat (replicate (n_max_executions self) [Model, Say, Run, Say]) @ [Say]"
    using e1 by (simp add: codeact_speak_def)
  moreover from this have
    "length (filter (\<lambda>a. a = Run) (map action_of (events ?s2)))
       = length (filter (\<lambda>a. a = Run) (map action_of (events self)))
         + n_max_executions self"
    "length (filter (\<lambda>a. a = Model) (map action_of (events ?s2)))
       = length (filter (\<lambda>a. a = Model) (map action_of (events self)))
         + n_max_executions self"
    by (simp_all add: count_rounds)
  moreover have "last (events ?s2) = Speak ?m" "last (memory ?s2) = ?m"
    "length (memory ?s2) = length (memory ?s0) + 2 * n_max_executions self + 1"
    using l1 by (simp_all add: codeact_speak_def)
  ultimately show ?thesis by blast
qed

theorem codeact_reply_execution_ceiling_witness:
  "\<exists>self'. codeact_reply
              \<lparr>model_response_text = (\<lambda>mem. ''Let me run it. [execute] print(1) [/execute]''),
               run_code_on_notebook =
                 (\<lambda>nb source. (\<lparr>status = SUCCESS, service_content = ''1''\<rparr>, nb))\<rparr>
              (codeact_init
                 \<lparr>model_response_text = (\<lambda>mem. ''Let me run it. [execute] print(1) [/execute]''),
                  run_code_on_notebook =
                    (\<lambda>nb source. (\<lparr>status = SUCCESS, service_content = ''1''\<rparr>, nb))\<rparr>
                 () ''assistant'' [])
              (Some \<lparr>name = ''user'', role = ''user'', content = ''Print one.''\<rparr>)
            = Inr self'
          \<and> map action_of (events self')
              = concat (replicate 5 [Model, Say, Run, Say]) @ [Say]
          \<and> length (filter (\<lambda>a. a = Run) (map action_of (events self'))) = 5
          \<and> length (filter (\<lambda>a. a = Model) (map action_of (events self'))) = 5
          \<and> last (memory self')
              = \<lparr>name = ''assitant'', role = ''assistant'',
                 content = ''I have reached the maximum number of executions ''
                           @ ''(self.n_max_executions=5). ''
                           @ ''Can you assist me or ask me another question?''\<rparr>
          \<and> length (memory self') = 13"
  using codeact_reply_execution_ceiling
    [where env = "\<lparr>model_response_text =
                       (\<lambda>mem. ''Let me run it. [execute] print(1) [/execute]''),
                     run_code_on_notebook =
                       (\<lambda>nb source. (\<lparr>status = SUCCESS, service_content = ''1''\<rparr>, nb))\<rparr>"
       and self = "codeact_init
                 \<lparr>model_response_text = (\<lambda>mem. ''Let me run it. [execute] print(1) [/execute]''),
                  run_code_on_notebook =
                    (\<lambda>nb source. (\<lparr>status = SUCCESS, service_content = ''1''\<rparr>, nb))\<rparr>
                 () ''assistant'' []"
       and x = "Some \<lparr>name = ''user'', role = ''user'', content = ''Print one.''\<rparr>"]
  by (auto simp: codeact_init_def search_execute_def max_executions_msg_def show_nat.simps
      Let_def)

text \<open>
  C5 as the specification words it fails when the message given to \<open>reply\<close> does not have
  the role \<open>user\<close>.  The model's response always holds an \<open>[execute]...[/execute]\<close>
  block, but the message of another assistant ends the memory, the loop is not entered, and
  \<open>reply\<close> returns with no model call, no execution and no closing message.
\<close>

theorem codeact_reply_no_execution:
  "(\<forall>mem. search_execute ''Let me run it. [execute] print(1) [/execute]'' \<noteq> None)
   \<and> (\<exists>self'. codeact_reply
              \<lparr>model_response_text = (\<lambda>mem. ''Let me run it. [execute] print(1) [/execute]''),
               run_code_on_notebook =
                 (\<lambda>nb source. (\<lparr>status = SUCCESS, service_content = ''1''\<rparr>, nb))\<rparr>
              (codeact_init
                 \<lparr>model_response_text = (\<lambda>mem. ''Let me run it. [execute] print(1) [/execute]''),
                  run_code_on_notebook =
                    (\<lambda>nb source. (\<lparr>status = SUCCESS, service_content = ''1''\<rparr>, nb))\<rparr>
                 () ''assistant'' [])
              (Some \<lparr>name = ''Bob'', role = ''assistant'', content = ''Print one.''\<rparr>)
            = Inr self'
          \<and> events self' = []
          \<and> last (memory self')
              = \<lparr>name = ''Bob'', role = ''assistant'', content = ''Print one.''\<rparr>
          \<and> length (memory self') = 2)"
  unfolding codeact_reply_def
  by (subst reply_loop.simps) (simp add: codeact_init_def search_execute_def Let_def)

end
